theory Spec2Isabelle
  imports Complex_Main "HOL-Library.Word" "HOL-Library.Sublist"
begin

section \<open>The executors package\<close>

text \<open>
  \<^verbatim>\<open>monai/deploy/executors/__init__.py\<close> imports one name from each of four
  submodules and lists the package's public interface in \<^verbatim>\<open>__all__\<close>.
\<close>

definition executors_imports :: "(string \<times> string) list" where
  "executors_imports =
     [(''executor'', ''Executor''),
      (''multi_process_executor'', ''MultiProcessExecutor''),
      (''multi_threaded_executor'', ''MultiThreadedExecutor''),
      (''single_process_executor'', ''SingleProcessExecutor'')]"

definition executors_all :: "string list" where
  "executors_all =
     [''Executor'', ''MultiProcessExecutor'', ''MultiThreadedExecutor'', ''SingleProcessExecutor'']"

section \<open>Port declarations\<close>

text \<open>
  Both operators declare their ports with class decorators. The payload types named by
  the decorators are \<^verbatim>\<open>Image\<close> and \<^verbatim>\<open>DataPath\<close>, the storage kinds
  \<^verbatim>\<open>IOType.IN_MEMORY\<close> and \<^verbatim>\<open>IOType.DISK\<close>.
\<close>

datatype data_type = Image | DataPath

datatype io_type = IN_MEMORY | DISK

record port =
  port_name :: string
  port_type :: data_type
  port_storage :: io_type

record operator_info =
  inputs :: "port list"
  outputs :: "port list"

definition no_ports :: operator_info where
  "no_ports = \<lparr>inputs = [], outputs = []\<rparr>"

text \<open>
  Modelled from the spec: the decorators \<^verbatim>\<open>input\<close>, \<^verbatim>\<open>output\<close> and
  \<^verbatim>\<open>env\<close> of \<^verbatim>\<open>monai.deploy.core\<close> are not among the sources. Following
  the spec's OperatorSpec (``declares ports via a static configuration: name, payload
  type, storage kind''), \<open>input_decorator\<close> and \<open>output_decorator\<close> add one port
  to the operator's declaration, and \<open>env_decorator\<close> (package requirements) leaves
  the ports alone.
\<close>

definition input_decorator :: "string \<Rightarrow> data_type \<Rightarrow> io_type \<Rightarrow> operator_info \<Rightarrow> operator_info" where
  "input_decorator label ty storage info =
     info\<lparr>inputs := \<lparr>port_name = label, port_type = ty, port_storage = storage\<rparr> # inputs info\<rparr>"

definition output_decorator :: "string \<Rightarrow> data_type \<Rightarrow> io_type \<Rightarrow> operator_info \<Rightarrow> operator_info" where
  "output_decorator label ty storage info =
     info\<lparr>outputs := \<lparr>port_name = label, port_type = ty, port_storage = storage\<rparr> # outputs info\<rparr>"

definition env_decorator :: "string list \<Rightarrow> operator_info \<Rightarrow> operator_info" where
  "env_decorator pip_packages info = info"

text \<open>Decorators apply bottom-up: the one written last is applied first.\<close>

definition GaussianOperator_info :: operator_info where
  "GaussianOperator_info =
     input_decorator ''image'' Image IN_MEMORY
       (output_decorator ''image'' DataPath DISK no_ports)"

definition STLConversionOperator_info :: operator_info where
  "STLConversionOperator_info =
     input_decorator ''image'' Image IN_MEMORY
       (output_decorator ''stl_output'' DataPath DISK
         (env_decorator
            [''numpy>=1.21'', ''numpy-stl>=2.12.0'', ''scikit-image>=0.17.2'', ''trimesh>=3.8.11'']
            no_ports))"

section \<open>Errors and arrays\<close>

text \<open>
  The exceptions the operators raise or let through. \<open>ValueError\<close> carries its
  message; \<open>LibraryError\<close> stands for whatever else a library call may raise.
\<close>

datatype py_error =
    ValueError string
  | TypeError
  | AssertionError
  | AttributeError
  | NotImplementedError
  | IndexError
  | KeyError
  | UnboundLocalError
  | FileNotFoundError
  | FileExistsError
  | NotADirectoryError
  | IsADirectoryError
  | LibraryError nat

text \<open>
  A numpy array: its shape and its elements in row-major order (what \<^verbatim>\<open>.flat\<close>
  iterates over). The element type is the array's dtype; \<^verbatim>\<open>uint8\<close> is \<open>8 word\<close>.
\<close>

record 'a ndarray =
  shape :: "nat list"
  flat :: "'a list"

type_synonym uint8 = "8 word"

subsection \<open>\<^verbatim>\<open>STLConverter.get_largest_cc\<close>\<close>

text \<open>
  \<^verbatim>\<open>labels.max()\<close>: numpy refuses to reduce an array of size zero.
\<close>

definition zero_size_reduction :: py_error where
  "zero_size_reduction =
     ValueError ''zero-size array to reduction operation maximum which has no identity''"

definition array_max :: "nat list \<Rightarrow> py_error + nat" where
  "array_max xs = (if xs = [] then Inl zero_size_reduction else Inr (fold max xs 0))"

text \<open>
  \<^verbatim>\<open>np.bincount(xs)\<close>: entry \<open>v\<close> counts the occurrences of \<open>v\<close>, for
  \<open>v\<close> from 0 to the largest element; empty for an empty input.
\<close>

definition bincount :: "nat list \<Rightarrow> nat list" where
  "bincount xs = (if xs = [] then [] else map (count_list xs) [0..<Suc (fold max xs 0)])"

text \<open>\<^verbatim>\<open>np.argmax\<close>: the index of the first occurrence of the maximum.\<close>

definition argmax :: "nat list \<Rightarrow> py_error + nat" where
  "argmax xs =
     (if xs = [] then Inl (ValueError ''attempt to get argmax of an empty sequence'')
      else Inr (length (takeWhile (\<lambda>x. x \<noteq> fold max xs 0) xs)))"

text \<open>
  \<^verbatim>\<open>
  def get_largest_cc(nda):
      labels = label(nda)
      # assume at least 1 CC
      assert labels.max() != 0
      largest_cc = labels == np.argmax(np.bincount(labels.flat)[1:]) + 1
      largest_cc = largest_cc.astype(np.uint8)
      return largest_cc
  \<close>
  \<^verbatim>\<open>label\<close> is \<^verbatim>\<open>skimage.measure.label\<close>, a parameter of the model.
\<close>

definition get_largest_cc :: "('a ndarray \<Rightarrow> nat ndarray) \<Rightarrow> 'a ndarray \<Rightarrow> py_error + uint8 ndarray" where
  "get_largest_cc label nda =
     (let labels = label nda in
      case array_max (flat labels) of
        Inl e \<Rightarrow> Inl e
      | Inr m \<Rightarrow>
          if m = 0 then Inl AssertionError
          else
            (case argmax (tl (bincount (flat labels))) of
               Inl e \<Rightarrow> Inl e
             | Inr k \<Rightarrow>
                 Inr \<lparr>shape = shape labels,
                      flat = map (\<lambda>l. if l = k + 1 then 1 else 0) (flat labels)\<rparr>))"

text \<open>
  What the properties of \<open>get_largest_cc\<close> say about the labelling.
  \<^verbatim>\<open>skimage.measure.label\<close> labels the array cast to integers, with 0 as the
  background: a zero voxel gets label 0 (\<open>background_labelled_zero\<close>), while a nonzero
  voxel need not get a nonzero label, since a float of magnitude below 1 is cast to 0.
  A labelling has a component when some label is not 0.
\<close>

definition background_labelled_zero :: "'a::zero ndarray \<Rightarrow> nat ndarray \<Rightarrow> bool" where
  "background_labelled_zero nda labels =
     list_all2 (\<lambda>v l. v = 0 \<longrightarrow> l = 0) (flat nda) (flat labels)"

definition has_component :: "nat ndarray \<Rightarrow> bool" where
  "has_component labels = list_ex (\<lambda>l. l \<noteq> 0) (flat labels)"

definition has_nonzero_voxel :: "'a::zero ndarray \<Rightarrow> bool" where
  "has_nonzero_voxel nda = list_ex (\<lambda>v. v \<noteq> 0) (flat nda)"

section \<open>Paths\<close>

text \<open>
  A \<^verbatim>\<open>pathlib\<close> path: whether it is anchored at the root, and its components.
  \<^verbatim>\<open>pathlib\<close> drops empty and \<^verbatim>\<open>.\<close> components when it parses a string and
  keeps \<^verbatim>\<open>..\<close>.
\<close>

record path =
  absolute :: bool
  parts :: "string list"

fun split_sep :: "char \<Rightarrow> string \<Rightarrow> string list" where
  "split_sep c [] = [[]]"
| "split_sep c (x # xs) =
     (if x = c then [] # split_sep c xs
      else (case split_sep c xs of [] \<Rightarrow> [[x]] | w # ws \<Rightarrow> (x # w) # ws))"

definition path_of_str :: "string \<Rightarrow> path" where
  "path_of_str s =
     \<lparr>absolute = (case s of [] \<Rightarrow> False | c # _ \<Rightarrow> c = CHR ''/''),
      parts = filter (\<lambda>w. w \<noteq> [] \<and> w \<noteq> ''.'') (split_sep CHR ''/'' s)\<rparr>"

text \<open>\<^verbatim>\<open>a / b\<close>: an absolute right operand replaces the left one.\<close>

definition joinpath :: "path \<Rightarrow> path \<Rightarrow> path" where
  "joinpath a b = (if absolute b then b else \<lparr>absolute = absolute a, parts = parts a @ parts b\<rparr>)"

definition parent :: "path \<Rightarrow> path" where
  "parent p = \<lparr>absolute = absolute p, parts = butlast (parts p)\<rparr>"

text \<open>\<^verbatim>\<open>os.path.join(folder, name)\<close> for a file name \<open>name\<close>.\<close>

definition os_path_join :: "path \<Rightarrow> string \<Rightarrow> path" where
  "os_path_join folder name = joinpath folder (path_of_str name)"

text \<open>
  \<^verbatim>\<open>os.path.splitext(p)[0]\<close>: the last component loses its extension, the part from
  its last dot on, unless only dots come before that dot.
\<close>

definition splitext_root_name :: "string \<Rightarrow> string" where
  "splitext_root_name name =
     (let rest = dropWhile (\<lambda>c. c \<noteq> CHR ''.'') (rev name) in
      if rest = [] then name
      else (let stem = rev (tl rest) in
            if list_ex (\<lambda>c. c \<noteq> CHR ''.'') stem then stem else name))"

definition splitext_root :: "path \<Rightarrow> path" where
  "splitext_root p =
     (if parts p = [] then p
      else \<lparr>absolute = absolute p, parts = butlast (parts p) @ [splitext_root_name (last (parts p))]\<rparr>)"

text \<open>String concatenation onto a path's text: it extends the last component.\<close>

definition add_suffix :: "path \<Rightarrow> string \<Rightarrow> path" where
  "add_suffix p s =
     (if parts p = [] then \<lparr>absolute = absolute p, parts = [s]\<rparr>
      else \<lparr>absolute = absolute p, parts = butlast (parts p) @ [last (parts p) @ s]\<rparr>)"

text \<open>\<open>under d p\<close>: \<open>p\<close> is \<open>d\<close> or lies below it, component by component.\<close>

definition under :: "path \<Rightarrow> path \<Rightarrow> bool" where
  "under d p = (absolute p = absolute d \<and> prefix (parts d) (parts p))"

section \<open>The file system\<close>

type_synonym bytes = "uint8 list"

datatype node = Dir | File bytes

type_synonym filesystem = "path \<Rightarrow> node option"

text \<open>Every change an operator makes to the file system is recorded, in order.\<close>

datatype fs_event = Mkdir path | Mkdtemp path | WriteFile path | Rmtree path


record world =
  fs :: filesystem
  trace :: "fs_event list"

text \<open>The root and the working directory (no components) always exist.\<close>

definition is_dir :: "filesystem \<Rightarrow> path \<Rightarrow> bool" where
  "is_dir f p = (parts p = [] \<or> f p = Some Dir)"

definition path_exists :: "filesystem \<Rightarrow> path \<Rightarrow> bool" where
  "path_exists f p = (parts p = [] \<or> f p \<noteq> None)"

definition missing_dir_error :: "filesystem \<Rightarrow> path \<Rightarrow> py_error" where
  "missing_dir_error f p = (case f p of None \<Rightarrow> FileNotFoundError | Some _ \<Rightarrow> NotADirectoryError)"

definition create_dir :: "fs_event \<Rightarrow> path \<Rightarrow> world \<Rightarrow> world" where
  "create_dir ev p w = \<lparr>fs = (fs w)(p \<mapsto> Dir), trace = trace w @ [ev]\<rparr>"

text \<open>\<^verbatim>\<open>Path.mkdir(exist_ok=True)\<close>: the parent must exist.\<close>

definition mkdir_exist_ok :: "path \<Rightarrow> world \<Rightarrow> (py_error + unit) \<times> world" where
  "mkdir_exist_ok p w =
     (if is_dir (fs w) p then (Inr (), w)
      else (case fs w p of
              Some _ \<Rightarrow> (Inl FileExistsError, w)
            | None \<Rightarrow>
                if is_dir (fs w) (parent p) then (Inr (), create_dir (Mkdir p) p w)
                else (Inl (missing_dir_error (fs w) (parent p)), w)))"



text \<open>
  What a library call that writes a file does: it writes the whole content, or it raises,
  in which case it may leave a partial file behind.
\<close>

datatype write_outcome = Written bytes | Failed py_error "bytes option"

definition put_file :: "path \<Rightarrow> bytes \<Rightarrow> world \<Rightarrow> world" where
  "put_file p b w = \<lparr>fs = (fs w)(p \<mapsto> File b), trace = trace w @ [WriteFile p]\<rparr>"

definition write_file :: "path \<Rightarrow> write_outcome \<Rightarrow> world \<Rightarrow> (py_error + unit) \<times> world" where
  "write_file p outcome w =
     (if is_dir (fs w) p then (Inl IsADirectoryError, w)
      else if is_dir (fs w) (parent p) then
        (case outcome of
           Written b \<Rightarrow> (Inr (), put_file p b w)
         | Failed e None \<Rightarrow> (Inl e, w)
         | Failed e (Some b) \<Rightarrow> (Inl e, put_file p b w))
      else (Inl (missing_dir_error (fs w) (parent p)), w))"

text \<open>
  \<^verbatim>\<open>open(p, "rb").read()\<close>; \<open>failure\<close> is an error of the operating system, if
  one occurs.
\<close>

definition read_file :: "path \<Rightarrow> py_error option \<Rightarrow> world \<Rightarrow> py_error + bytes" where
  "read_file p failure w =
     (if is_dir (fs w) p then Inl IsADirectoryError
      else (case fs w p of
              None \<Rightarrow> Inl FileNotFoundError
            | Some Dir \<Rightarrow> Inl IsADirectoryError
            | Some (File b) \<Rightarrow> (case failure of None \<Rightarrow> Inr b | Some e \<Rightarrow> Inl e)))"

text \<open>\<^verbatim>\<open>shutil.rmtree(t)\<close> removes the directory and everything below it.\<close>

definition rmtree :: "path \<Rightarrow> world \<Rightarrow> (py_error + unit) \<times> world" where
  "rmtree t w =
     (if is_dir (fs w) t then
        (Inr (), \<lparr>fs = (\<lambda>p. if under t p then None else fs w p), trace = trace w @ [Rmtree t]\<rparr>)
      else (Inl (missing_dir_error (fs w) t), w))"

text \<open>
  \<^verbatim>\<open>tempfile.mkdtemp()\<close>: candidate names are tried in turn in the temporary
  directory; a name that exists is skipped, and the first free one is created.
\<close>

fun mkdtemp :: "path \<Rightarrow> string list \<Rightarrow> world \<Rightarrow> (py_error + path) \<times> world" where
  "mkdtemp dir [] w = (Inl FileExistsError, w)"
| "mkdtemp dir (name # names) w =
     (let t = os_path_join dir name in
      if path_exists (fs w) t then mkdtemp dir names w
      else if is_dir (fs w) dir then (Inr t, create_dir (Mkdtemp t) t w)
      else (Inl (missing_dir_error (fs w) dir), w))"


section \<open>Images and volumes\<close>

text \<open>
  The values an operator receives. \<open>'a\<close> is the type of a voxel; \<open>'o\<close> is the type of
  the objects the operators only hand from one library call to the next (metadata
  values, affines, vertex and face arrays, ITK images, meshes, class ids).
  An \<^verbatim>\<open>Image\<close> holds an array and a metadata dictionary, whose values may be
  \<^verbatim>\<open>None\<close>.
\<close>

record ('a, 'o) image =
  asnumpy :: "'a ndarray"
  metadata :: "string \<rightharpoonup> 'o option"

text \<open>
  A Python value as the operators test it: \<^verbatim>\<open>None\<close>, an \<^verbatim>\<open>Image\<close>, or an
  object of another class, of which only the truth value matters. An \<^verbatim>\<open>Image\<close>
  defines neither \<^verbatim>\<open>__bool__\<close> nor \<^verbatim>\<open>__len__\<close> and is true.
\<close>

datatype ('a, 'o) py_value = PyNone | PyImage "('a, 'o) image" | PyObject bool

fun py_truthy :: "('a, 'o) py_value \<Rightarrow> bool" where
  "py_truthy PyNone = False"
| "py_truthy (PyImage _) = True"
| "py_truthy (PyObject b) = b"

fun isinstance_Image :: "('a, 'o) py_value \<Rightarrow> bool" where
  "isinstance_Image (PyImage _) = True"
| "isinstance_Image _ = False"

text \<open>
  The array an operator works on is a \<^verbatim>\<open>float32\<close> array of voxels or, after
  \<open>get_largest_cc\<close>, a \<^verbatim>\<open>uint8\<close> mask.
\<close>

datatype 'a volume = VFloat "'a ndarray" | VU8 "uint8 ndarray"

fun vshape :: "'a volume \<Rightarrow> nat list" where
  "vshape (VFloat a) = shape a"
| "vshape (VU8 a) = shape a"

text \<open>The \<^verbatim>\<open>class_ids\<close> argument: \<^verbatim>\<open>None\<close>, a list, or any other value.\<close>

datatype 'o class_ids = ClassNone | ClassList "'o list" | ClassValue 'o

text \<open>
  The library functions the operators call (numpy, scikit-image, nibabel, SimpleITK,
  numpy-stl, trimesh, tempfile), as parameters. A call that may raise returns a sum.
\<close>

record ('a, 'o) array_libs =
  label :: "'a ndarray \<Rightarrow> nat ndarray"
  asarray :: "'o option list \<Rightarrow> 'o"
  itk_from_array :: "'a ndarray \<Rightarrow> 'o option list \<Rightarrow> py_error + 'o"
  itk_set_direction :: "'o \<Rightarrow> 'o option list \<Rightarrow> py_error + 'o"
  affines_differ :: "'o \<Rightarrow> 'o \<Rightarrow> bool"
  reorient :: "'a volume \<Rightarrow> 'o \<Rightarrow> py_error + 'a volume"
  is_positive :: "'a \<Rightarrow> bool"
  eq_mask :: "'a volume \<Rightarrow> 'o \<Rightarrow> py_error + uint8 ndarray"
  scaled_length :: "nat \<Rightarrow> 'o \<Rightarrow> nat \<Rightarrow> py_error + int"
  resize :: "'a volume \<Rightarrow> int list \<Rightarrow> nat \<Rightarrow> bool \<Rightarrow> bool \<Rightarrow> py_error + 'a volume"

record ('a, 'o) mesh_libs =
  marching_cubes :: "'a volume \<Rightarrow> py_error + 'o \<times> 'o"
  rescale_verts :: "'o \<Rightarrow> nat list \<Rightarrow> nat list \<Rightarrow> py_error + 'o"
  to_physical :: "'o \<Rightarrow> 'o \<Rightarrow> py_error + 'o"
  build_mesh :: "'o \<Rightarrow> 'o \<Rightarrow> py_error + 'o"
  mesh_save :: "'o \<Rightarrow> write_outcome"
  trimesh_load :: "bytes \<Rightarrow> py_error + 'o"
  filter_taubin :: "'o \<Rightarrow> py_error + 'o"
  mesh_export :: "'o \<Rightarrow> write_outcome"

record os_libs =
  read_failure :: "py_error option"
  tempdir :: path
  temp_names :: "string list"

record ('a, 'o) libs =
  arrays :: "('a, 'o) array_libs"
  meshes :: "('a, 'o) mesh_libs"
  os :: os_libs

subsection \<open>\<^verbatim>\<open>STLConverter.SpatialImage\<close>\<close>

record ('a, 'o) spatial_image =
  image_array :: "'a ndarray"
  itk_image :: 'o
  spacing :: "'o option"
  original_affine :: "'o option"
  affine :: "'o option"

text \<open>
  Sequencing of calls that may raise: the first error ends the computation.
\<close>

definition and_then :: "py_error + 'x \<Rightarrow> ('x \<Rightarrow> py_error + 'y) \<Rightarrow> py_error + 'y" where
  "and_then m f = (case m of Inl e \<Rightarrow> Inl e | Inr x \<Rightarrow> f x)"

text \<open>\<^verbatim>\<open>d[key]\<close> raises \<^verbatim>\<open>KeyError\<close> for a missing key.\<close>

definition getitem :: "(string \<rightharpoonup> 'v) \<Rightarrow> string \<Rightarrow> py_error + 'v" where
  "getitem d k = (case d k of None \<Rightarrow> Inl KeyError | Some v \<Rightarrow> Inr v)"

text \<open>
  \<^verbatim>\<open>_load_data\<close>: the array, the spacing (an array of the three pixel spacings), the
  affine (read once and used as both the original and the current one) and an ITK image
  with the spacing and the direction cosines set. The values are stored as the
  properties of the \<^verbatim>\<open>SpatialImage\<close> once the number of dimensions is accepted.
\<close>

definition load_data ::
  "('a, 'o) libs \<Rightarrow> ('a, 'o) image \<Rightarrow> py_error + ('a, 'o) spatial_image" where
  "load_data L img =
     (let img_array = asnumpy img; d = metadata img in
      and_then (getitem d ''row_pixel_spacing'') (\<lambda>rs.
      and_then (getitem d ''col_pixel_spacing'') (\<lambda>cs.
      and_then (getitem d ''depth_pixel_spacing'') (\<lambda>ds.
      and_then (getitem d ''nifti_affine_transform'') (\<lambda>aff.
      and_then (itk_from_array (arrays L) img_array [rs, cs, ds]) (\<lambda>itk.
      and_then (getitem d ''row_direction_cosine'') (\<lambda>rd.
      and_then (getitem d ''col_direction_cosine'') (\<lambda>cd.
      and_then (getitem d ''depth_direction_cosine'') (\<lambda>dd.
      and_then (itk_set_direction (arrays L) itk [rd, cd, dd]) (\<lambda>itk'.
        Inr \<lparr>image_array = img_array, itk_image = itk',
             spacing = Some (asarray (arrays L) [rs, cs, ds]),
             original_affine = aff, affine = aff\<rparr>))))))))))"

text \<open>
  \<^verbatim>\<open>_read_from_in_mem_image\<close>. Arrays of two and three dimensions are accepted. For
  up to five dimensions the code reads \<^verbatim>\<open>self.is_channels_first\<close>, an attribute the
  class does not have; more than five are refused. The cast of the array to
  \<^verbatim>\<open>float32\<close> changes no shape and is not modelled: the voxel type \<open>'a\<close> stands for
  the cast values.
\<close>

definition read_from_in_mem_image ::
  "('a, 'o) libs \<Rightarrow> ('a, 'o) image \<Rightarrow> py_error + ('a, 'o) spatial_image" where
  "read_from_in_mem_image L img =
     and_then (load_data L img) (\<lambda>s.
       let num_dims = length (shape (image_array s)) in
       if num_dims = 2 then Inr s
       else if num_dims = 3 then Inr s
       else if num_dims \<le> 5 then
         (if num_dims = 5 \<and> length (filter (\<lambda>n. n \<noteq> 1) (shape (image_array s))) \<noteq> 4
          then Inl (ValueError ''Cannot squeeze 5D image to 4D; object doesn't support time based data.'')
          else Inl AttributeError)
       else Inl NotImplementedError)"

definition SpatialImage :: "('a, 'o) libs \<Rightarrow> ('a, 'o) py_value \<Rightarrow> py_error + ('a, 'o) spatial_image" where
  "SpatialImage L image_arg =
     (case image_arg of
        PyImage img \<Rightarrow> read_from_in_mem_image L img
      | _ \<Rightarrow> Inl (ValueError ''Argument is not a Image object.''))"


subsection \<open>\<^verbatim>\<open>STLConverter.convert\<close>: from the image to the mesh\<close>

definition zeros :: "nat list \<Rightarrow> uint8 ndarray" where
  "zeros shp = \<lparr>shape = shp, flat = replicate (prod_list shp) 0\<rparr>"

text \<open>
  \<^verbatim>\<open>new_nda += mask\<close> on \<^verbatim>\<open>uint8\<close> arrays: addition wraps around; a mask of
  another shape is refused.
\<close>

definition iadd :: "uint8 ndarray \<Rightarrow> uint8 ndarray \<Rightarrow> py_error + uint8 ndarray" where
  "iadd acc msk =
     (if shape msk = shape acc
      then Inr \<lparr>shape = shape acc, flat = map2 (+) (flat acc) (flat msk)\<rparr>
      else Inl (ValueError ''operands could not be broadcast together''))"

text \<open>\<^verbatim>\<open>(nda > 0).astype(np.uint8)\<close>\<close>

fun gt_zero :: "('a, 'o) libs \<Rightarrow> 'a volume \<Rightarrow> uint8 ndarray" where
  "gt_zero L (VFloat a) =
     \<lparr>shape = shape a, flat = map (\<lambda>v. if is_positive (arrays L) v then 1 else 0) (flat a)\<rparr>"
| "gt_zero L (VU8 a) = \<lparr>shape = shape a, flat = map (\<lambda>v. if 0 < v then 1 else 0) (flat a)\<rparr>"

text \<open>
  \<^verbatim>\<open>
  for class_id in class_ids:
      new_nda += (nda == class_id).astype(np.uint8)
  \<close>
\<close>

fun add_class_masks ::
  "('a, 'o) libs \<Rightarrow> 'a volume \<Rightarrow> 'o list \<Rightarrow> uint8 ndarray \<Rightarrow> py_error + uint8 ndarray" where
  "add_class_masks L nda [] new_nda = Inr new_nda"
| "add_class_masks L nda (c # cs) new_nda =
     and_then (eq_mask (arrays L) nda c) (\<lambda>msk.
     and_then (iadd new_nda msk) (\<lambda>new_nda'.
       add_class_masks L nda cs new_nda'))"

text \<open>
  The mask built from \<^verbatim>\<open>class_ids\<close>. For a value that is neither \<^verbatim>\<open>None\<close> nor a
  list, a \<^verbatim>\<open>ValueError\<close> is raised again with the operator's own message.
\<close>

definition class_mask :: "('a, 'o) libs \<Rightarrow> 'a volume \<Rightarrow> 'o class_ids \<Rightarrow> py_error + uint8 ndarray" where
  "class_mask L nda class_ids =
     (let new_nda = zeros (vshape nda) in
      case class_ids of
        ClassNone \<Rightarrow> iadd new_nda (gt_zero L nda)
      | ClassList cs \<Rightarrow> add_class_masks L nda cs new_nda
      | ClassValue c \<Rightarrow>
          (case and_then (eq_mask (arrays L) nda c) (iadd new_nda) of
             Inl (ValueError _) \<Rightarrow> Inl (ValueError ''That was no valid value for class_id.'')
           | r \<Rightarrow> r))"

text \<open>
  \<^verbatim>\<open>
  for _j in range(3):
      length = float(nda.shape[_j]) * res[_j] / max_res
      length = int(np.round(length))
      target_shape.append(length)
  \<close>
  The arithmetic is \<open>scaled_length\<close>; indexing the shape beyond the array's
  dimensions raises.
\<close>

fun target_lengths :: "('a, 'o) libs \<Rightarrow> nat list \<Rightarrow> 'o \<Rightarrow> nat list \<Rightarrow> py_error + int list" where
  "target_lengths L shp res [] = Inr []"
| "target_lengths L shp res (j # js) =
     (if j < length shp then
        and_then (scaled_length (arrays L) (shp ! j) res j) (\<lambda>len.
        and_then (target_lengths L shp res js) (\<lambda>lens. Inr (len # lens)))
      else Inl IndexError)"

definition target_shape :: "('a, 'o) libs \<Rightarrow> 'a volume \<Rightarrow> 'o \<Rightarrow> py_error + int list" where
  "target_shape L nda res = target_lengths L (vshape nda) res [0, 1, 2]"

definition resize_volume ::
  "('a, 'o) libs \<Rightarrow> 'a volume \<Rightarrow> int list \<Rightarrow> nat \<Rightarrow> bool \<Rightarrow> bool \<Rightarrow> py_error + 'a volume" where
  "resize_volume L nda output_shape order preserve_range anti_aliasing =
     resize (arrays L) nda output_shape order preserve_range anti_aliasing"

text \<open>
  The array \<^verbatim>\<open>nda\<close> and the resolution \<^verbatim>\<open>res\<close> as they stand when the class
  mask is built: after the largest component is kept, the spacing is checked and the
  array is re-oriented if the two affines differ.
\<close>

definition prepare_volume ::
  "('a, 'o) libs \<Rightarrow> ('a, 'o) spatial_image \<Rightarrow> bool \<Rightarrow> py_error + ('a volume \<times> 'o)" where
  "prepare_volume L s keep =
     and_then
       (if keep then and_then (get_largest_cc (label (arrays L)) (image_array s)) (\<lambda>m. Inr (VU8 m))
        else Inr (VFloat (image_array s)))
       (\<lambda>nda.
          case spacing s of
            None \<Rightarrow> Inl (ValueError ''Image spacing/resolution is missing.'')
          | Some res \<Rightarrow>
              (case (original_affine s, affine s) of
                 (Some a, Some b) \<Rightarrow>
                   if affines_differ (arrays L) a b
                   then and_then (reorient (arrays L) nda a) (\<lambda>nda'. Inr (nda', res))
                   else Inr (nda, res)
               | _ \<Rightarrow> Inr (nda, res)))"

text \<open>The volume that replaces \<^verbatim>\<open>new_nda\<close>: \<open>nda\<close> resized to the target shape.\<close>

definition resized_volume :: "('a, 'o) libs \<Rightarrow> 'a volume \<Rightarrow> 'o \<Rightarrow> py_error + 'a volume" where
  "resized_volume L nda res =
     and_then (target_shape L nda res) (\<lambda>shp. resize_volume L nda shp 1 True False)"

text \<open>
  \<open>volume_stage\<close> returns \<^verbatim>\<open>nda\<close> and \<^verbatim>\<open>new_nda\<close> as they are when
  \<^verbatim>\<open>measure.marching_cubes(new_nda, ...)\<close> is called: \<^verbatim>\<open>new_nda\<close> first holds the
  class mask and is then assigned the resized volume.
\<close>

definition volume_stage ::
  "('a, 'o) libs \<Rightarrow> ('a, 'o) spatial_image \<Rightarrow> 'o class_ids \<Rightarrow> bool \<Rightarrow> py_error + ('a volume \<times> 'a volume)" where
  "volume_stage L s class_ids keep =
     and_then (prepare_volume L s keep) (\<lambda>(nda, res).
     and_then (class_mask L nda class_ids) (\<lambda>new_nda.
     and_then (resized_volume L nda res) (\<lambda>new_nda.
       Inr (nda, new_nda))))"

definition mesh_stage ::
  "('a, 'o) libs \<Rightarrow> ('a, 'o) spatial_image \<Rightarrow> 'o class_ids \<Rightarrow> bool \<Rightarrow> py_error + ('o \<times> 'o)" where
  "mesh_stage L s class_ids keep =
     and_then (volume_stage L s class_ids keep) (\<lambda>(nda, new_nda).
     and_then (marching_cubes (meshes L) new_nda) (\<lambda>(verts, faces).
     and_then (rescale_verts (meshes L) verts (vshape nda) (vshape new_nda)) (\<lambda>verts'.
     and_then (to_physical (meshes L) (itk_image s) verts') (\<lambda>verts''.
       Inr (verts'', faces)))))"

subsection \<open>\<^verbatim>\<open>STLConverter.convert\<close>: writing the mesh\<close>

text \<open>Sequencing of calls that change the file system; the changes made so far stay.\<close>

definition io_then ::
  "(py_error + 'x) \<times> world \<Rightarrow> ('x \<Rightarrow> world \<Rightarrow> (py_error + 'y) \<times> world) \<Rightarrow> (py_error + 'y) \<times> world" where
  "io_then r f = (case r of (Inl e, w) \<Rightarrow> (Inl e, w) | (Inr x, w) \<Rightarrow> f x w)"

text \<open>
  The \<^verbatim>\<open>output_file\<close> argument: \<^verbatim>\<open>None\<close>, a string or a \<^verbatim>\<open>pathlib.Path\<close>.
  A path object is always true; \<^verbatim>\<open>len\<close> is defined for strings only.
\<close>

datatype out_file = NoFile | FileStr string | FilePath path

fun file_truthy :: "out_file \<Rightarrow> bool" where
  "file_truthy NoFile = False"
| "file_truthy (FileStr s) = (s \<noteq> [])"
| "file_truthy (FilePath p) = True"

fun py_len :: "out_file \<Rightarrow> py_error + nat" where
  "py_len (FileStr s) = Inr (length s)"
| "py_len _ = Inl TypeError"

fun isinstance_Path :: "out_file \<Rightarrow> bool" where
  "isinstance_Path (FilePath p) = True"
| "isinstance_Path _ = False"

definition path_truthy :: "path \<Rightarrow> bool" where
  "path_truthy p = True"

text \<open>
  \<^verbatim>\<open>
  def write_stl(verts, faces, filename):
      cube = mesh.Mesh(np.zeros(faces.shape[0], dtype=mesh.Mesh.dtype))
      for i, f in enumerate(faces): ...
      cube.save(os.path.splitext(filename)[0] + ".stl")
  \<close>
\<close>

definition write_stl ::
  "('a, 'o) libs \<Rightarrow> 'o \<Rightarrow> 'o \<Rightarrow> path \<Rightarrow> world \<Rightarrow> (py_error + unit) \<times> world" where
  "write_stl L verts faces filename w =
     io_then (build_mesh (meshes L) verts faces, w) (\<lambda>cube w'.
       write_file (add_suffix (splitext_root filename) ''.stl'') (mesh_save (meshes L) cube) w')"

text \<open>
  \<^verbatim>\<open>final_file_path = output_file if output_file else os.path.join(temp_folder, "surface_mesh.stl")\<close>
\<close>

fun final_file_path :: "out_file \<Rightarrow> path \<Rightarrow> path" where
  "final_file_path (FilePath p) temp_folder = p"
| "final_file_path (FileStr s) temp_folder =
     (if s \<noteq> [] then path_of_str s else os_path_join temp_folder ''surface_mesh.stl'')"
| "final_file_path NoFile temp_folder = os_path_join temp_folder ''surface_mesh.stl''"

text \<open>The body of the \<^verbatim>\<open>try\<close> block, after \<^verbatim>\<open>tempfile.mkdtemp()\<close> has returned.\<close>

definition try_body ::
  "('a, 'o) libs \<Rightarrow> 'o \<Rightarrow> 'o \<Rightarrow> out_file \<Rightarrow> bool \<Rightarrow> path \<Rightarrow> world \<Rightarrow> (py_error + bytes) \<times> world" where
  "try_body L verts faces output_file is_smooth temp_folder w =
     (let raw_stl_filename = os_path_join temp_folder ''temp.stl'' in
      io_then (write_stl L verts faces raw_stl_filename w) (\<lambda>_ w1.
      io_then (and_then (read_file raw_stl_filename None w1) (trimesh_load (meshes L)), w1) (\<lambda>mesh_data w2.
      io_then ((if is_smooth then filter_taubin (meshes L) mesh_data else Inr mesh_data), w2) (\<lambda>mesh_data' w3.
      io_then (write_file (final_file_path output_file temp_folder) (mesh_export (meshes L) mesh_data') w3) (\<lambda>_ w4.
        (read_file (final_file_path output_file temp_folder) (read_failure (os L)) w4, w4))))))"

text \<open>
  \<^verbatim>\<open>
  try:
      temp_folder = tempfile.mkdtemp()
      ...
  finally:
      shutil.rmtree(temp_folder)
  \<close>
  When \<^verbatim>\<open>mkdtemp\<close> raises, \<^verbatim>\<open>temp_folder\<close> is unbound in the \<^verbatim>\<open>finally\<close>
  clause. An exception raised by the \<^verbatim>\<open>finally\<close> clause replaces the outcome of the
  body.
\<close>

definition export_stage ::
  "('a, 'o) libs \<Rightarrow> 'o \<Rightarrow> 'o \<Rightarrow> out_file \<Rightarrow> bool \<Rightarrow> world \<Rightarrow> (py_error + bytes) \<times> world" where
  "export_stage L verts faces output_file is_smooth w =
     (case mkdtemp (tempdir (os L)) (temp_names (os L)) w of
        (Inl e, w1) \<Rightarrow> (Inl UnboundLocalError, w1)
      | (Inr temp_folder, w1) \<Rightarrow>
          (case try_body L verts faces output_file is_smooth temp_folder w1 of
             (r, w2) \<Rightarrow>
               (case rmtree temp_folder w2 of
                  (Inl e, w3) \<Rightarrow> (Inl e, w3)
                | (Inr _, w3) \<Rightarrow> (r, w3))))"

definition convert ::
  "('a, 'o) libs \<Rightarrow> ('a, 'o) py_value \<Rightarrow> out_file \<Rightarrow> 'o class_ids \<Rightarrow> bool \<Rightarrow> bool \<Rightarrow> world
     \<Rightarrow> (py_error + bytes) \<times> world" where
  "convert L image_arg output_file class_ids is_smooth keep_largest_connected_component w =
     (if \<not> py_truthy image_arg \<or> \<not> isinstance_Image image_arg
      then (Inl (ValueError ''image is not a Image object.''), w)
      else (case output_file of
              FilePath p \<Rightarrow>
                io_then (if path_truthy (parent p) then mkdir_exist_ok (parent p) w else (Inr (), w)) (\<lambda>_ w1.
                io_then (and_then (SpatialImage L image_arg)
                           (\<lambda>s_image. mesh_stage L s_image class_ids keep_largest_connected_component), w1)
                  (\<lambda>(verts, faces) w2.
                     export_stage L verts faces output_file is_smooth w2))
            | _ \<Rightarrow> (Inl (ValueError ''output_file is not a Path''), w)))"

section \<open>The operators\<close>

subsection \<open>\<^verbatim>\<open>STLConversionOperator\<close>\<close>

record 'o stl_operator =
  self_class_id :: "'o class_ids"
  self_is_smooth :: bool
  self_keep_largest_connected_component :: bool
  self_output_file :: out_file

text \<open>\<^verbatim>\<open>x and len(x) > 0\<close>\<close>

definition nonempty :: "out_file \<Rightarrow> py_error + bool" where
  "nonempty x = (if file_truthy x then and_then (py_len x) (\<lambda>n. Inr (0 < n)) else Inr False)"

definition STLConversionOperator_init ::
  "out_file \<Rightarrow> 'o class_ids \<Rightarrow> bool \<Rightarrow> bool \<Rightarrow> py_error + 'o stl_operator" where
  "STLConversionOperator_init output_file class_id is_smooth keep_largest_connected_component =
     and_then (nonempty output_file) (\<lambda>given.
       Inr \<lparr>self_class_id = class_id, self_is_smooth = is_smooth,
            self_keep_largest_connected_component = keep_largest_connected_component,
            self_output_file = (if given then output_file else NoFile)\<rparr>)"

text \<open>What \<^verbatim>\<open>op_output.get()\<close> returns: a \<^verbatim>\<open>DataPath\<close> or another value.\<close>

datatype out_config = DataPathValue path | InMemoryValue

text \<open>\<^verbatim>\<open>folder / x\<close>\<close>

fun truediv :: "path \<Rightarrow> out_file \<Rightarrow> py_error + path" where
  "truediv folder (FilePath p) = Inr (joinpath folder p)"
| "truediv folder (FileStr s) = Inr (joinpath folder (path_of_str s))"
| "truediv folder NoFile = Inl TypeError"

text \<open>\<^verbatim>\<open>_convert\<close>\<close>

definition STLConversionOperator_convert ::
  "('a, 'o) libs \<Rightarrow> 'o stl_operator \<Rightarrow> ('a, 'o) py_value \<Rightarrow> out_file \<Rightarrow> world \<Rightarrow> (py_error + bytes) \<times> world" where
  "STLConversionOperator_convert L self image_arg output_file w =
     (case output_file of
        FilePath p \<Rightarrow>
          io_then (mkdir_exist_ok (parent p) w) (\<lambda>_ w1.
            convert L image_arg (FilePath p) (self_class_id self) (self_is_smooth self)
              (self_keep_largest_connected_component self) w1)
      | _ \<Rightarrow>
          convert L image_arg (self_output_file self) (self_class_id self) (self_is_smooth self)
            (self_keep_largest_connected_component self) w)"

text \<open>
  \<^verbatim>\<open>compute\<close>. \<open>op_input\<close> is the value of the input port \<^verbatim>\<open>image\<close>,
  \<open>op_output_config\<close> the value of \<^verbatim>\<open>op_output.get()\<close> and \<open>app_output\<close> the path
  of \<^verbatim>\<open>context.output.get()\<close>. The result is the value passed to
  \<^verbatim>\<open>op_output.set\<close>, if it is called, with the operator object and the file system as
  the call leaves them.
\<close>

definition STLConversionOperator_compute ::
  "('a, 'o) libs \<Rightarrow> 'o stl_operator \<Rightarrow> ('a, 'o) py_value \<Rightarrow> out_config \<Rightarrow> path \<Rightarrow> world
     \<Rightarrow> (py_error + bytes option) \<times> 'o stl_operator \<times> world" where
  "STLConversionOperator_compute L self op_input op_output_config app_output w =
     (if \<not> py_truthy op_input then (Inl (ValueError ''Input is None.''), self, w)
      else
        (case nonempty (self_output_file self) of
           Inl e \<Rightarrow> (Inl e, self, w)
         | Inr False \<Rightarrow>
             (case STLConversionOperator_convert L self op_input (self_output_file self) w of
                (Inl e, w2) \<Rightarrow> (Inl e, self, w2)
              | (Inr stl_bytes, w2) \<Rightarrow>
                  (case op_output_config of
                     DataPathValue _ \<Rightarrow> (Inr None, self, w2)
                   | InMemoryValue \<Rightarrow> (Inr (Some stl_bytes), self, w2)))
         | Inr True \<Rightarrow>
             (let output_folder =
                    (case op_output_config of DataPathValue d \<Rightarrow> d | InMemoryValue \<Rightarrow> app_output)
              in case truediv output_folder (self_output_file self) of
                   Inl e \<Rightarrow> (Inl e, self, w)
                 | Inr f \<Rightarrow>
                     (let self' = self\<lparr>self_output_file := FilePath f\<rparr> in
                      case mkdir_exist_ok (parent f) w of
                        (Inl e, w1) \<Rightarrow> (Inl e, self', w1)
                      | (Inr _, w1) \<Rightarrow>
                          (case STLConversionOperator_convert L self' op_input (self_output_file self') w1 of
                             (Inl e, w2) \<Rightarrow> (Inl e, self', w2)
                           | (Inr stl_bytes, w2) \<Rightarrow>
                               (case op_output_config of
                                  DataPathValue _ \<Rightarrow> (Inr None, self', w2)
                                | InMemoryValue \<Rightarrow> (Inr (Some stl_bytes), self', w2)))))))"

subsection \<open>\<^verbatim>\<open>GaussianOperator\<close>\<close>



section \<open>Specification predicates\<close>

text \<open>
  A well-formed file system: whatever exists lies in a directory that exists.
\<close>

definition wf_fs :: "filesystem \<Rightarrow> bool" where
  "wf_fs f = (\<forall>p. f p \<noteq> None \<longrightarrow> is_dir f (parent p))"

text \<open>
  A relative path that names something below the folder it is joined to: it is not
  absolute, it has a component, and no component is \<^verbatim>\<open>..\<close>.
\<close>

definition relative_below :: "path \<Rightarrow> bool" where
  "relative_below p = (\<not> absolute p \<and> parts p \<noteq> [] \<and> ''..'' \<notin> set (parts p))"

text \<open>The directories \<^verbatim>\<open>tempfile.mkdtemp()\<close> may create.\<close>

definition temp_folders :: "('a, 'o) libs \<Rightarrow> path set" where
  "temp_folders L = os_path_join (tempdir (os L)) ` set (temp_names (os L))"

section \<open>Sample inputs\<close>

text \<open>
  A labelling for one-dimensional arrays, used to run the definitions on concrete inputs:
  each maximal run of nonzero voxels is one connected component, numbered from 1 in
  order of appearance.
\<close>

fun label_runs :: "'a::zero list \<Rightarrow> bool \<Rightarrow> nat \<Rightarrow> nat list" where
  "label_runs [] prev n = []"
| "label_runs (x # xs) prev n =
     (if x = 0 then 0 # label_runs xs False n
      else if prev then n # label_runs xs True n
      else Suc n # label_runs xs True (Suc n))"

definition demo_label :: "int ndarray \<Rightarrow> nat ndarray" where
  "demo_label nda = \<lparr>shape = shape nda, flat = label_runs (flat nda) False 0\<rparr>"

text \<open>
  A labelling that works as \<^verbatim>\<open>skimage.measure.label\<close> does on a one-dimensional
  array of fractions: the voxels are cast to integers (truncated towards zero), then each
  maximal run of nonzero integers is one component.
\<close>

definition astype_int :: "rat \<Rightarrow> int" where
  "astype_int v = (if 0 \<le> v then \<lfloor>v\<rfloor> else \<lceil>v\<rceil>)"

definition cast_label :: "rat ndarray \<Rightarrow> nat ndarray" where
  "cast_label nda = \<lparr>shape = shape nda, flat = label_runs (map astype_int (flat nda)) False 0\<rparr>"

definition small_voxels :: "rat ndarray" where
  "small_voxels = \<lparr>shape = [4], flat = [1 / 4, 0, 3 / 4, 3 / 4]\<rparr>"

text \<open>
  Library functions for the sample runs: voxels are integers, library objects are
  numbers.
\<close>

fun demo_eq_mask :: "int volume \<Rightarrow> nat \<Rightarrow> py_error + uint8 ndarray" where
  "demo_eq_mask (VFloat a) c =
     Inr \<lparr>shape = shape a, flat = map (\<lambda>v. if v = int c then 1 else 0) (flat a)\<rparr>"
| "demo_eq_mask (VU8 a) c =
     Inr \<lparr>shape = shape a, flat = map (\<lambda>v. if unat v = c then 1 else 0) (flat a)\<rparr>"

definition demo_arrays :: "(int, nat) array_libs" where
  "demo_arrays =
     \<lparr>label = demo_label,
      asarray = (\<lambda>xs. 0),
      itk_from_array = (\<lambda>a sp. Inr 0),
      itk_set_direction = (\<lambda>itk ds. Inr itk),
      affines_differ = (\<lambda>a b. a \<noteq> b),
      reorient = (\<lambda>v a. Inr v),
      is_positive = (\<lambda>v. 0 < v),
      eq_mask = demo_eq_mask,
      scaled_length = (\<lambda>n res j. Inr (int n)),
      resize = (\<lambda>v shp order preserve_range anti_aliasing. Inr v)\<rparr>"

definition demo_meshes :: "(int, nat) mesh_libs" where
  "demo_meshes =
     \<lparr>marching_cubes = (\<lambda>v. Inr (10, 20)),
      rescale_verts = (\<lambda>verts shp shp'. Inr verts),
      to_physical = (\<lambda>itk verts. Inr verts),
      build_mesh = (\<lambda>verts faces. Inr 3),
      mesh_save = (\<lambda>cube. Written [1, 2, 3]),
      trimesh_load = (\<lambda>b. Inr 4),
      filter_taubin = (\<lambda>m. Inr m),
      mesh_export = (\<lambda>m. Written [115, 116, 108])\<rparr>"

definition demo_os :: os_libs where
  "demo_os =
     \<lparr>read_failure = None,
      tempdir = \<lparr>absolute = True, parts = [''tmp'']\<rparr>,
      temp_names = [''tmpa'', ''tmpb'']\<rparr>"

definition demo_libs :: "(int, nat) libs" where
  "demo_libs = \<lparr>arrays = demo_arrays, meshes = demo_meshes, os = demo_os\<rparr>"

definition demo_metadata :: "string \<rightharpoonup> nat option" where
  "demo_metadata =
     [''row_pixel_spacing'' \<mapsto> Some 1, ''col_pixel_spacing'' \<mapsto> Some 1,
      ''depth_pixel_spacing'' \<mapsto> Some 1, ''nifti_affine_transform'' \<mapsto> Some 5,
      ''row_direction_cosine'' \<mapsto> Some 6, ''col_direction_cosine'' \<mapsto> Some 7,
      ''depth_direction_cosine'' \<mapsto> Some 8]"

definition demo_image :: "(int, nat) image" where
  "demo_image = \<lparr>asnumpy = \<lparr>shape = [2, 2, 2], flat = [0, 3, 3, 0, 7, 0, 0, 0]\<rparr>, metadata = demo_metadata\<rparr>"

definition out_dir :: path where
  "out_dir = \<lparr>absolute = True, parts = [''out'']\<rparr>"

definition demo_world :: world where
  "demo_world =
     \<lparr>fs = [\<lparr>absolute = True, parts = [''tmp'']\<rparr> \<mapsto> Dir, out_dir \<mapsto> Dir],
      trace = []\<rparr>"

definition demo_operator :: "nat stl_operator" where
  "demo_operator =
     \<lparr>self_class_id = ClassNone, self_is_smooth = True,
      self_keep_largest_connected_component = True,
      self_output_file = FileStr ''mesh.stl''\<rparr>"


definition mesh_file :: path where
  "mesh_file = \<lparr>absolute = True, parts = [''out'', ''mesh.stl'']\<rparr>"

definition demo_convert_run :: "(py_error + bytes) \<times> world" where
  "demo_convert_run = convert demo_libs (PyImage demo_image) (FilePath mesh_file) ClassNone True True demo_world"

definition demo_compute_run :: "(py_error + bytes option) \<times> nat stl_operator \<times> world" where
  "demo_compute_run =
     STLConversionOperator_compute demo_libs demo_operator (PyImage demo_image) (DataPathValue out_dir)
       out_dir demo_world"

definition demo_compute_run_in_memory :: "(py_error + bytes option) \<times> nat stl_operator \<times> world" where
  "demo_compute_run_in_memory =
     STLConversionOperator_compute demo_libs demo_operator (PyImage demo_image) InMemoryValue
       out_dir demo_world"

definition tmp_stl :: path where
  "tmp_stl = \<lparr>absolute = True, parts = [''tmp'', ''tmpa'', ''temp.stl'']\<rparr>"



definition failing_libs :: "(int, nat) libs" where
  "failing_libs =
     \<lparr>arrays = demo_arrays,
      meshes = demo_meshes\<lparr>mesh_export := (\<lambda>m. Failed (LibraryError 7) (Some [115]))\<rparr>,
      os = demo_os\<rparr>"

definition failing_convert_run :: "(py_error + bytes) \<times> world" where
  "failing_convert_run =
     convert failing_libs (PyImage demo_image) (FilePath mesh_file) ClassNone True True demo_world"

definition elsewhere_file :: path where
  "elsewhere_file = \<lparr>absolute = True, parts = [''elsewhere'', ''mesh.stl'']\<rparr>"

definition elsewhere_world :: world where
  "elsewhere_world =
     \<lparr>fs = [\<lparr>absolute = True, parts = [''tmp'']\<rparr> \<mapsto> Dir,
            \<lparr>absolute = True, parts = [''elsewhere'']\<rparr> \<mapsto> Dir],
      trace = []\<rparr>"

definition elsewhere_operator :: "nat stl_operator" where
  "elsewhere_operator =
     \<lparr>self_class_id = ClassNone, self_is_smooth = True,
      self_keep_largest_connected_component = True,
      self_output_file = FileStr ''/elsewhere/mesh.stl''\<rparr>"

definition elsewhere_run :: "(py_error + bytes option) \<times> nat stl_operator \<times> world" where
  "elsewhere_run =
     STLConversionOperator_compute demo_libs elsewhere_operator (PyImage demo_image)
       (DataPathValue out_dir) out_dir elsewhere_world"

section \<open>Properties\<close>

lemma fold_max_ge_init: "(a::nat) \<le> fold max xs a"
  by (induction xs arbitrary: a) (auto intro: order_trans [OF max.cobounded2])

lemma fold_max_ge_elem: "(x::nat) \<in> set xs \<Longrightarrow> x \<le> fold max xs a"
proof (induction xs arbitrary: a)
  case Nil
  then show ?case by simp
next
  case (Cons y ys)
  show ?case
  proof (cases "x = y")
    case True
    have "y \<le> max y a" by simp
    also have "\<dots> \<le> fold max ys (max y a)" by (rule fold_max_ge_init)
    finally show ?thesis using True by simp
  next
    case False
    with Cons show ?thesis by simp
  qed
qed

lemma fold_max_mem: "fold max xs (a::nat) = a \<or> fold max xs a \<in> set xs"
proof (induction xs arbitrary: a)
  case Nil
  then show ?case by simp
next
  case (Cons y ys)
  from Cons [of "max y a"] show ?case
    by (auto simp: max_def split: if_splits)
qed

subsection \<open>The executors package and the declared ports\<close>

text \<open>
  C10. The public interface of the executors package is the base \<open>Executor\<close> and the
  three strategies \<open>SingleProcessExecutor\<close>, \<open>MultiThreadedExecutor\<close> and
  \<open>MultiProcessExecutor\<close>, each listed once, and nothing else; every listed name is
  one the package imports.
\<close>

theorem executors_all_exact:
  "set executors_all =
     {''Executor'', ''SingleProcessExecutor'', ''MultiThreadedExecutor'', ''MultiProcessExecutor''}
   \<and> distinct executors_all
   \<and> length executors_all = 4
   \<and> set executors_all = set (map snd executors_imports)"
  by (simp add: executors_all_def executors_imports_def insert_commute)

text \<open>
  C9. \<open>GaussianOperator\<close> and \<open>STLConversionOperator\<close> each declare exactly one
  input port, named \<open>image\<close>, of type \<open>Image\<close> and held in memory, and exactly one
  output port, of type \<open>DataPath\<close> and stored on disk (named \<open>image\<close> and
  \<open>stl_output\<close>).
\<close>

theorem declared_ports:
  "inputs GaussianOperator_info =
     [\<lparr>port_name = ''image'', port_type = Image, port_storage = IN_MEMORY\<rparr>]
   \<and> outputs GaussianOperator_info =
     [\<lparr>port_name = ''image'', port_type = DataPath, port_storage = DISK\<rparr>]
   \<and> inputs STLConversionOperator_info =
     [\<lparr>port_name = ''image'', port_type = Image, port_storage = IN_MEMORY\<rparr>]
   \<and> outputs STLConversionOperator_info =
     [\<lparr>port_name = ''stl_output'', port_type = DataPath, port_storage = DISK\<rparr>]"
  by (simp add: GaussianOperator_info_def STLConversionOperator_info_def input_decorator_def
      output_decorator_def env_decorator_def no_ports_def)

subsection \<open>\<^verbatim>\<open>get_largest_cc\<close>\<close>

lemma tl_bincount:
  "xs \<noteq> [] \<Longrightarrow> tl (bincount xs) = map (count_list xs) [1..<Suc (fold max xs 0)]"
  by (simp add: bincount_def upt_conv_Cons map_tl del: upt_Suc)

lemma argmax_props:
  assumes "xs \<noteq> []"
  shows "\<exists>k. argmax xs = Inr k \<and> k < length xs \<and> (\<forall>x \<in> set xs. x \<le> xs ! k) \<and> (\<forall>i < k. xs ! i < xs ! k)"
proof -
  let ?m = "fold max xs 0"
  let ?k = "length (takeWhile (\<lambda>x. x \<noteq> ?m) xs)"
  have mem: "?m \<in> set xs"
  proof -
    from assms obtain x where x: "x \<in> set xs" by (cases xs) auto
    from fold_max_mem [of xs 0] show ?thesis
    proof
      assume z: "?m = 0"
      with fold_max_ge_elem [OF x, of 0] have "x = 0" by simp
      with x z show ?thesis by simp
    qed
  qed
  then have "takeWhile (\<lambda>x. x \<noteq> ?m) xs \<noteq> xs"
    by (simp add: takeWhile_eq_all_conv)
  then have "?k \<noteq> length xs"
    using takeWhile_eq_take [of "\<lambda>x. x \<noteq> ?m" xs] by auto
  then have lt: "?k < length xs"
    using length_takeWhile_le [of "\<lambda>x. x \<noteq> ?m" xs] by simp
  have at: "xs ! ?k = ?m"
    using lt nth_length_takeWhile [of "\<lambda>x. x \<noteq> ?m" xs] by auto
  have ub: "\<forall>x \<in> set xs. x \<le> xs ! ?k"
    using at fold_max_ge_elem [of _ xs 0] by simp
  have before: "\<forall>i < ?k. xs ! i < xs ! ?k"
  proof (intro allI impI)
    fix i assume i: "i < ?k"
    then have "xs ! i \<noteq> ?m"
      using takeWhile_nth [of i "\<lambda>x. x \<noteq> ?m" xs] nth_mem [of i "takeWhile (\<lambda>x. x \<noteq> ?m) xs"]
        set_takeWhileD [of "xs ! i" "\<lambda>x. x \<noteq> ?m" xs] by auto
    moreover have "xs ! i \<le> ?m"
      using i lt fold_max_ge_elem [of "xs ! i" xs 0] by simp
    ultimately show "xs ! i < xs ! ?k" using at by simp
  qed
  show ?thesis
    using assms lt ub before by (auto simp: argmax_def)
qed

lemma no_component_max:
  assumes "\<not> has_component labels"
  shows "fold max (flat labels) 0 = 0"
proof -
  from assms have "\<forall>l \<in> set (flat labels). l = 0"
    by (simp add: has_component_def list_ex_iff)
  with fold_max_mem [of "flat labels" 0] show ?thesis by auto
qed

lemma component_max:
  assumes "has_component labels"
  shows "0 < fold max (flat labels) 0"
proof -
  from assms obtain l where "l \<in> set (flat labels)" "0 < l"
    by (auto simp: has_component_def list_ex_iff)
  with fold_max_ge_elem [of l "flat labels" 0] show ?thesis by simp
qed

lemma all_zero_no_component:
  assumes "background_labelled_zero nda labels" "\<not> has_nonzero_voxel nda"
  shows "\<not> has_component labels \<and> length (flat labels) = length (flat nda)"
proof -
  have "list_all2 (\<lambda>v l. v = 0 \<longrightarrow> l = 0) vs ls \<Longrightarrow> \<forall>v \<in> set vs. v = 0
      \<Longrightarrow> (\<forall>l \<in> set ls. l = 0) \<and> length ls = length vs"
    for vs :: "'a list" and ls :: "nat list"
    by (induction rule: list_all2_induct) auto
  with assms show ?thesis
    by (simp add: background_labelled_zero_def has_nonzero_voxel_def has_component_def list_ex_iff)
qed

text \<open>
  The sample array has nonzero voxels, all of magnitude below 1. Its labelling has no
  component, and \<open>get_largest_cc\<close> fails on it.
\<close>

lemma astype_int_small: "astype_int (1 / 4) = 0" "astype_int (3 / 4) = 0" "astype_int 0 = 0"
  by (simp_all add: astype_int_def floor_eq_iff)

theorem get_largest_cc_fails_with_nonzero_voxels:
  "has_nonzero_voxel small_voxels
   \<and> flat (cast_label small_voxels) = [0, 0, 0, 0]
   \<and> get_largest_cc cast_label small_voxels = Inl AssertionError"
  by (simp add: has_nonzero_voxel_def small_voxels_def cast_label_def astype_int_small
      get_largest_cc_def array_max_def)


text \<open>
  C8, as amended. \<open>get_largest_cc\<close> returns exactly when the labelling of its input
  has a component. When it has none, the call fails with the \<open>AssertionError\<close> of
  \<^verbatim>\<open>assert labels.max() != 0\<close> (for an array of size zero \<^verbatim>\<open>labels.max()\<close> itself
  raises inside that assertion); this is so for every array without a nonzero voxel,
  as a zero voxel gets label 0. When it has one, the call returns a \<^verbatim>\<open>uint8\<close> array
  of the labelling's shape that is 1 exactly on the voxels of one component \<open>k\<close>,
  where no component has more voxels than \<open>k\<close> and every component numbered before
  \<open>k\<close> has fewer.
\<close>

theorem get_largest_cc_needs_component:
  fixes nda :: "'a::zero ndarray"
  shows "(background_labelled_zero nda (lab nda) \<longrightarrow> \<not> has_nonzero_voxel nda \<longrightarrow>
            get_largest_cc lab nda =
              Inl (if flat nda = [] then zero_size_reduction else AssertionError))
       \<and> (\<not> has_component (lab nda) \<longrightarrow>
            get_largest_cc lab nda =
              Inl (if flat (lab nda) = [] then zero_size_reduction else AssertionError))
       \<and> (has_component (lab nda) \<longrightarrow>
            (\<exists>k. 0 < k \<and> k \<in> set (flat (lab nda))
               \<and> (\<forall>j. 0 < j \<longrightarrow> count_list (flat (lab nda)) j \<le> count_list (flat (lab nda)) k)
               \<and> (\<forall>j. 0 < j \<and> j < k \<longrightarrow> count_list (flat (lab nda)) j < count_list (flat (lab nda)) k)
               \<and> get_largest_cc lab nda =
                     Inr \<lparr>shape = shape (lab nda),
                          flat = map (\<lambda>l. if l = k then 1 else 0) (flat (lab nda))\<rparr>))"
proof (intro conjI impI)
  let ?ls = "flat (lab nda)"
  have none: "get_largest_cc lab nda = Inl (if ?ls = [] then zero_size_reduction else AssertionError)"
    if "\<not> has_component (lab nda)"
    using no_component_max [OF that] by (auto simp: get_largest_cc_def array_max_def Let_def)
  {
    assume "\<not> has_component (lab nda)"
    then show "get_largest_cc lab nda = Inl (if ?ls = [] then zero_size_reduction else AssertionError)"
      by (rule none)
  }
  {
    assume "background_labelled_zero nda (lab nda)" "\<not> has_nonzero_voxel nda"
    from all_zero_no_component [OF this] none
    show "get_largest_cc lab nda = Inl (if flat nda = [] then zero_size_reduction else AssertionError)"
      by auto
  }
  {
    assume nz: "has_component (lab nda)"
    let ?M = "fold max ?ls 0"
    let ?cs = "map (count_list ?ls) [1..<Suc ?M]"
    have M: "0 < ?M"
      using component_max [OF nz] .
    then have ne: "?ls \<noteq> []" by auto
    have cs_ne: "?cs \<noteq> []" using M by (simp del: upt_Suc)
    from argmax_props [OF cs_ne] obtain k where
      k: "argmax ?cs = Inr k" "k < length ?cs" "\<forall>x \<in> set ?cs. x \<le> ?cs ! k" "\<forall>i < k. ?cs ! i < ?cs ! k"
      by blast
    have kM: "k < ?M" using k(2) by (simp del: upt_Suc)
    have at: "\<And>i. i < ?M \<Longrightarrow> ?cs ! i = count_list ?ls (Suc i)"
      by (simp add: nth_map_upt del: upt_Suc)
    have Mmem: "?M \<in> set ?ls"
      using fold_max_mem [of ?ls 0] M by auto
    have best: "count_list ?ls j \<le> count_list ?ls (Suc k)" if "0 < j" for j
    proof (cases "j \<le> ?M")
      case True
      then have "count_list ?ls j \<in> set ?cs" using that by (auto simp del: upt_Suc)
      with k(3) at [OF kM] show ?thesis by auto
    next
      case False
      then have "j \<notin> set ?ls" using fold_max_ge_elem [of j ?ls 0] by auto
      then show ?thesis by simp
    qed
    have "count_list ?ls ?M \<noteq> 0" using Mmem count_list_0_iff [of ?ls ?M] by blast
    with best [OF M] have "0 < count_list ?ls (Suc k)" by simp
    then have kmem: "Suc k \<in> set ?ls" using count_list_0_iff [of ?ls "Suc k"] by auto
    have first: "count_list ?ls j < count_list ?ls (Suc k)" if "0 < j \<and> j < Suc k" for j
    proof -
      from that obtain i where i: "j = Suc i" "i < k" by (cases j) auto
      with k(4) have "?cs ! i < ?cs ! k" by simp
      with at [of i] at [OF kM] i kM show ?thesis by simp
    qed
    have res: "get_largest_cc lab nda =
        Inr \<lparr>shape = shape (lab nda), flat = map (\<lambda>l. if l = Suc k then 1 else 0) ?ls\<rparr>"
      using M ne k(1) by (simp add: get_largest_cc_def array_max_def Let_def tl_bincount del: upt_Suc)
    show "\<exists>k. 0 < k \<and> k \<in> set ?ls
               \<and> (\<forall>j. 0 < j \<longrightarrow> count_list ?ls j \<le> count_list ?ls k)
               \<and> (\<forall>j. 0 < j \<and> j < k \<longrightarrow> count_list ?ls j < count_list ?ls k)
               \<and> get_largest_cc lab nda =
                     Inr \<lparr>shape = shape (lab nda), flat = map (\<lambda>l. if l = k then 1 else 0) ?ls\<rparr>"
      using kmem best first res by (intro exI [of _ "Suc k"]) auto
  }
qed

theorem get_largest_cc_needs_component_witness:
  "background_labelled_zero \<lparr>shape = [3], flat = [0, 0, 0 :: int]\<rparr> (demo_label \<lparr>shape = [3], flat = [0, 0, 0]\<rparr>)
   \<and> \<not> has_nonzero_voxel \<lparr>shape = [3], flat = [0, 0, 0 :: int]\<rparr>
   \<and> get_largest_cc demo_label \<lparr>shape = [3], flat = [0, 0, 0]\<rparr> = Inl AssertionError
   \<and> background_labelled_zero small_voxels (cast_label small_voxels)
   \<and> \<not> has_component (cast_label small_voxels)
   \<and> get_largest_cc cast_label small_voxels = Inl AssertionError
   \<and> has_component (demo_label \<lparr>shape = [5], flat = [0, 3, 3, 0, 7]\<rparr>)
   \<and> get_largest_cc demo_label \<lparr>shape = [5], flat = [0, 3, 3, 0, 7]\<rparr>
         = Inr \<lparr>shape = [5], flat = [0, 1, 1, 0, 0]\<rparr>"
proof -
  let ?a = "\<lparr>shape = [5], flat = [0, 3, 3, 0, 7 :: int]\<rparr>"
  let ?z = "\<lparr>shape = [3], flat = [0, 0, 0 :: int]\<rparr>"
  have hz: "background_labelled_zero ?z (demo_label ?z)"
    by (simp add: background_labelled_zero_def demo_label_def)
  have nz: "\<not> has_nonzero_voxel ?z" by (simp add: has_nonzero_voxel_def)
  have hs: "background_labelled_zero small_voxels (cast_label small_voxels)"
    by (simp add: background_labelled_zero_def small_voxels_def cast_label_def astype_int_small)
  have ns: "\<not> has_component (cast_label small_voxels)"
    by (simp add: has_component_def small_voxels_def cast_label_def astype_int_small)
  have ls: "flat (cast_label small_voxels) \<noteq> []"
    by (simp add: small_voxels_def cast_label_def)
  have ca: "has_component (demo_label ?a)"
    by (simp add: has_component_def demo_label_def)
  have ra: "get_largest_cc demo_label ?a = Inr \<lparr>shape = [5], flat = [0, 1, 1, 0, 0]\<rparr>"
    by (simp add: get_largest_cc_def demo_label_def array_max_def bincount_def argmax_def Let_def
        upt_rec numeral_eq_Suc)
  from get_largest_cc_needs_component [of ?z demo_label] hz nz
  have rz: "get_largest_cc demo_label ?z = Inl AssertionError" by simp
  from get_largest_cc_needs_component [of small_voxels cast_label] ns ls
  have rs: "get_largest_cc cast_label small_voxels = Inl AssertionError" by simp
  from hz nz rz hs ns rs ca ra show ?thesis by simp
qed

subsection \<open>Sequencing\<close>

lemma and_then_Inl [simp]: "and_then (Inl e) f = Inl e"
  by (simp add: and_then_def)

lemma and_then_Inr [simp]: "and_then (Inr x) f = f x"
  by (simp add: and_then_def)

lemma and_then_eq_Inr: "and_then m f = Inr y \<longleftrightarrow> (\<exists>x. m = Inr x \<and> f x = Inr y)"
  by (cases m) simp_all

lemma io_then_Inl [simp]: "io_then (Inl e, w) f = (Inl e, w)"
  by (simp add: io_then_def)

lemma io_then_Inr [simp]: "io_then (Inr x, w) f = f x w"
  by (simp add: io_then_def)

lemma io_then_cases:
  assumes "io_then m f = (r, w')"
  obtains (raised) e where "m = (Inl e, w')" "r = Inl e"
  | (continued) x w1 where "m = (Inr x, w1)" "f x w1 = (r, w')"
proof (cases m)
  case (Pair a w1)
  with assms show ?thesis
    by (cases a) (auto intro: raised continued)
qed

subsection \<open>Argument checks\<close>



subsection \<open>The class mask\<close>




lemma demo_spatial_image:
  "SpatialImage demo_libs (PyImage demo_image) =
     Inr \<lparr>image_array = \<lparr>shape = [2, 2, 2], flat = [0, 3, 3, 0, 7, 0, 0, 0]\<rparr>,
          itk_image = 0, spacing = Some 0, original_affine = Some 5, affine = Some 5\<rparr>"
  by (simp add: SpatialImage_def read_from_in_mem_image_def load_data_def getitem_def
      demo_image_def demo_metadata_def demo_libs_def demo_arrays_def)

lemma demo_largest_cc:
  "get_largest_cc demo_label \<lparr>shape = [2, 2, 2], flat = [0, 3, 3, 0, 7, 0, 0, 0]\<rparr> =
     Inr \<lparr>shape = [2, 2, 2], flat = [0, 1, 1, 0, 0, 0, 0, 0]\<rparr>"
  by (simp add: get_largest_cc_def demo_label_def array_max_def bincount_def argmax_def Let_def
      upt_rec numeral_eq_Suc)

lemma demo_prepare_volume:
  "prepare_volume demo_libs
     \<lparr>image_array = \<lparr>shape = [2, 2, 2], flat = [0, 3, 3, 0, 7, 0, 0, 0]\<rparr>,
      itk_image = 0, spacing = Some 0, original_affine = Some 5, affine = Some 5\<rparr> True =
     Inr (VU8 \<lparr>shape = [2, 2, 2], flat = [0, 1, 1, 0, 0, 0, 0, 0]\<rparr>, 0)"
  by (simp add: prepare_volume_def demo_libs_def demo_arrays_def demo_largest_cc)


subsection \<open>Paths\<close>

lemma under_refl [simp]: "under d d"
  by (simp add: under_def)



lemma path_of_str_temp_stl: "path_of_str ''temp.stl'' = \<lparr>absolute = False, parts = [''temp.stl'']\<rparr>"
  by (simp add: path_of_str_def)

lemma raw_stl_filename:
  "add_suffix (splitext_root (os_path_join t ''temp.stl'')) ''.stl'' = os_path_join t ''temp.stl''"
  by (simp add: add_suffix_def splitext_root_def os_path_join_def joinpath_def path_of_str_temp_stl
      splitext_root_name_def)


subsection \<open>Effects of the file-system calls\<close>

lemma mkdir_exist_ok_cases:
  assumes "mkdir_exist_ok p w = (r, w')"
  shows "(w' = w \<and> (r = Inr () \<longrightarrow> is_dir (fs w) p))
       \<or> (r = Inr () \<and> w' = create_dir (Mkdir p) p w \<and> fs w p = None \<and> is_dir (fs w) (parent p))"
  using assms by (auto simp: mkdir_exist_ok_def split: if_splits option.splits)

lemma mkdir_exist_ok_is_dir:
  assumes "mkdir_exist_ok p w = (Inr u, w')"
  shows "is_dir (fs w') p"
  using mkdir_exist_ok_cases [OF assms] by (auto simp: create_dir_def is_dir_def)

lemma write_file_effect:
  assumes "write_file p outcome w = (r, w')"
  shows "\<exists>ws. trace w' = trace w @ map WriteFile ws \<and> set ws \<subseteq> {p}
           \<and> (\<forall>q. fs w q = Some Dir \<longrightarrow> fs w' q = Some Dir)
           \<and> (r = Inr () \<longrightarrow> (\<exists>b. fs w' p = Some (File b) \<and> outcome = Written b))"
proof -
  consider (same) "w' = w" "r \<noteq> Inr ()"
    | (put) b where "w' = put_file p b w" "\<not> is_dir (fs w) p" "r = Inr () \<longrightarrow> outcome = Written b"
    using assms by (auto simp: write_file_def split: if_splits write_outcome.splits option.splits)
  then show ?thesis
  proof cases
    case same
    then show ?thesis by (intro exI [of _ "[]"]) simp
  next
    case put
    then show ?thesis
      by (intro exI [of _ "[p]"]) (auto simp: put_file_def is_dir_def)
  qed
qed

lemma read_file_Inr: "read_file p failure w = Inr b \<Longrightarrow> fs w p = Some (File b)"
  by (auto simp: read_file_def split: if_splits option.splits node.splits)

lemma mkdtemp_cases:
  assumes "mkdtemp dir names w = (r, w')"
  shows "((\<exists>e. r = Inl e) \<and> w' = w)
       \<or> (\<exists>n \<in> set names. r = Inr (os_path_join dir n) \<and> \<not> path_exists (fs w) (os_path_join dir n)
             \<and> w' = create_dir (Mkdtemp (os_path_join dir n)) (os_path_join dir n) w)"
  using assms by (induction names) (auto simp: Let_def split: if_splits)

subsection \<open>The \<^verbatim>\<open>try\<close> block\<close>

lemma write_stl_effect:
  assumes "write_stl L verts faces (os_path_join t ''temp.stl'') w = (r, w')"
  shows "\<exists>ws. trace w' = trace w @ map WriteFile ws \<and> set ws \<subseteq> {os_path_join t ''temp.stl''}
           \<and> (\<forall>q. fs w q = Some Dir \<longrightarrow> fs w' q = Some Dir)"
proof -
  from assms have "io_then (build_mesh (meshes L) verts faces, w)
      (\<lambda>cube w'. write_file (os_path_join t ''temp.stl'') (mesh_save (meshes L) cube) w') = (r, w')"
    by (simp add: write_stl_def raw_stl_filename)
  then show ?thesis
  proof (cases rule: io_then_cases)
    case (raised e)
    then have "w' = w" by simp
    then show ?thesis by (intro exI [of _ "[]"]) simp
  next
    case (continued cube w1)
    then have "write_file (os_path_join t ''temp.stl'') (mesh_save (meshes L) cube) w = (r, w')"
      by simp
    from write_file_effect [OF this] show ?thesis by blast
  qed
qed

lemma try_body_effect:
  assumes "try_body L verts faces output_file is_smooth t w = (r, w')"
  shows "\<exists>ws. trace w' = trace w @ map WriteFile ws
           \<and> set ws \<subseteq> {os_path_join t ''temp.stl'', final_file_path output_file t}
           \<and> (\<forall>q. fs w q = Some Dir \<longrightarrow> fs w' q = Some Dir)
           \<and> (\<forall>b. r = Inr b \<longrightarrow> fs w' (final_file_path output_file t) = Some (File b))"
proof -
  let ?raw = "os_path_join t ''temp.stl''"
  let ?final = "final_file_path output_file t"
  let ?goal = "\<lambda>w0. \<exists>ws. trace w' = trace w0 @ map WriteFile ws
           \<and> set ws \<subseteq> {?raw, ?final}
           \<and> (\<forall>q. fs w0 q = Some Dir \<longrightarrow> fs w' q = Some Dir)
           \<and> (\<forall>b. r = Inr b \<longrightarrow> fs w' ?final = Some (File b))"
  have stop: "?goal w'" if "\<exists>e. r = Inl e"
    using that by (intro exI [of _ "[]"]) auto
  from assms have
    "io_then (write_stl L verts faces ?raw w) (\<lambda>_ w1.
      io_then (and_then (read_file ?raw None w1) (trimesh_load (meshes L)), w1) (\<lambda>mesh_data w2.
      io_then ((if is_smooth then filter_taubin (meshes L) mesh_data else Inr mesh_data), w2) (\<lambda>mesh_data' w3.
      io_then (write_file ?final (mesh_export (meshes L) mesh_data') w3) (\<lambda>_ w4.
        (read_file ?final (read_failure (os L)) w4, w4))))) = (r, w')"
    by (simp add: try_body_def Let_def)
  then show ?thesis
  proof (cases rule: io_then_cases)
    case (raised e)
    from write_stl_effect [OF raised(1)] show ?thesis using raised(2) by auto
  next
    case (continued u w1)
    from write_stl_effect [OF continued(1)] obtain ws1 where
      s1: "trace w1 = trace w @ map WriteFile ws1" "set ws1 \<subseteq> {?raw}"
          "\<forall>q. fs w q = Some Dir \<longrightarrow> fs w1 q = Some Dir"
      by blast
    have "?goal w1"
      using continued(2)
    proof (cases rule: io_then_cases)
      case (raised e)
      then show ?thesis using stop by simp
    next
      case (continued mesh_data w2)
      then have w2: "w2 = w1" by simp
      show ?thesis
        using continued(2)
      proof (cases rule: io_then_cases)
        case (raised e)
        then show ?thesis using stop w2 by simp
      next
        case (continued mesh_data' w3)
        then have w3: "w3 = w1" using w2 by simp
        show ?thesis
          using continued(2)
        proof (cases rule: io_then_cases)
          case (raised e)
          from write_file_effect [OF raised(1)] raised(2) w3 show ?thesis by auto
        next
          case (continued u' w4)
          from write_file_effect [OF continued(1)] w3 obtain ws2 where
            s2: "trace w4 = trace w1 @ map WriteFile ws2" "set ws2 \<subseteq> {?final}"
              "\<forall>q. fs w1 q = Some Dir \<longrightarrow> fs w4 q = Some Dir"
            by blast
          from continued(2) have e: "w' = w4" "r = read_file ?final (read_failure (os L)) w4"
            by auto
          have "\<forall>b. r = Inr b \<longrightarrow> fs w' ?final = Some (File b)"
            using e read_file_Inr [of ?final "read_failure (os L)" w4] by auto
          with s2 e show ?thesis
            by (intro exI [of _ ws2]) auto
        qed
      qed
    qed
    then obtain ws2 where
      s2: "trace w' = trace w1 @ map WriteFile ws2" "set ws2 \<subseteq> {?raw, ?final}"
          "\<forall>q. fs w1 q = Some Dir \<longrightarrow> fs w' q = Some Dir"
          "\<forall>b. r = Inr b \<longrightarrow> fs w' ?final = Some (File b)"
      by blast
    from s1 s2 show ?thesis
      by (intro exI [of _ "ws1 @ ws2"]) auto
  qed
qed

subsection \<open>The \<^verbatim>\<open>finally\<close> clause\<close>

lemma export_stage_effect:
  assumes "export_stage L verts faces output_file is_smooth w = (r, w')"
  shows "(w' = w \<and> r = Inl UnboundLocalError)
       \<or> (\<exists>t \<in> temp_folders L. \<exists>ws.
             \<not> path_exists (fs w) t
             \<and> trace w' = trace w @ Mkdtemp t # map WriteFile ws @ [Rmtree t]
             \<and> set ws \<subseteq> {os_path_join t ''temp.stl'', final_file_path output_file t}
             \<and> (\<forall>p. under t p \<longrightarrow> fs w' p = None)
             \<and> (\<forall>p. \<not> under t p \<longrightarrow> fs w p = Some Dir \<longrightarrow> fs w' p = Some Dir)
             \<and> (\<forall>b. r = Inr b \<longrightarrow> final_file_path output_file t \<noteq> t)
             \<and> (\<forall>b. r = Inr b \<longrightarrow> \<not> under t (final_file_path output_file t)
                   \<longrightarrow> fs w' (final_file_path output_file t) = Some (File b)))"
proof -
  obtain r0 w1 where m: "mkdtemp (tempdir (os L)) (temp_names (os L)) w = (r0, w1)"
    by (cases "mkdtemp (tempdir (os L)) (temp_names (os L)) w") auto
  from mkdtemp_cases [OF m] show ?thesis
  proof
    assume "(\<exists>e. r0 = Inl e) \<and> w1 = w"
    with m assms show ?thesis by (auto simp: export_stage_def)
  next
    assume "\<exists>n \<in> set (temp_names (os L)). r0 = Inr (os_path_join (tempdir (os L)) n)
        \<and> \<not> path_exists (fs w) (os_path_join (tempdir (os L)) n)
        \<and> w1 = create_dir (Mkdtemp (os_path_join (tempdir (os L)) n)) (os_path_join (tempdir (os L)) n) w"
    then obtain n where n: "n \<in> set (temp_names (os L))"
      and r0: "r0 = Inr (os_path_join (tempdir (os L)) n)"
      and fresh: "\<not> path_exists (fs w) (os_path_join (tempdir (os L)) n)"
      and w1: "w1 = create_dir (Mkdtemp (os_path_join (tempdir (os L)) n)) (os_path_join (tempdir (os L)) n) w"
      by blast
    let ?t = "os_path_join (tempdir (os L)) n"
    have tin: "?t \<in> temp_folders L" using n by (simp add: temp_folders_def)
    obtain r2 w2 where b: "try_body L verts faces output_file is_smooth ?t w1 = (r2, w2)"
      by (cases "try_body L verts faces output_file is_smooth ?t w1") auto
    from try_body_effect [OF b] obtain ws where
      ws: "trace w2 = trace w1 @ map WriteFile ws"
          "set ws \<subseteq> {os_path_join ?t ''temp.stl'', final_file_path output_file ?t}"
          "\<forall>q. fs w1 q = Some Dir \<longrightarrow> fs w2 q = Some Dir"
          "\<forall>b. r2 = Inr b \<longrightarrow> fs w2 (final_file_path output_file ?t) = Some (File b)"
      by blast
    have d1: "fs w1 ?t = Some Dir" using w1 by (simp add: create_dir_def)
    with ws(3) have d2: "is_dir (fs w2) ?t" by (simp add: is_dir_def)
    then have rm: "rmtree ?t w2 =
        (Inr (), \<lparr>fs = (\<lambda>p. if under ?t p then None else fs w2 p), trace = trace w2 @ [Rmtree ?t]\<rparr>)"
      by (simp add: rmtree_def)
    from assms m r0 b rm have res: "r = r2"
      "w' = \<lparr>fs = (\<lambda>p. if under ?t p then None else fs w2 p), trace = trace w2 @ [Rmtree ?t]\<rparr>"
      by (auto simp: export_stage_def)
    have tr: "trace w' = trace w @ Mkdtemp ?t # map WriteFile ws @ [Rmtree ?t]"
      using res ws(1) w1 by (simp add: create_dir_def)
    have gone: "\<forall>p. under ?t p \<longrightarrow> fs w' p = None" using res by simp
    have dirs: "\<forall>p. \<not> under ?t p \<longrightarrow> fs w p = Some Dir \<longrightarrow> fs w' p = Some Dir"
    proof (intro allI impI)
      fix p assume "\<not> under ?t p" "fs w p = Some Dir"
      moreover from this have "p \<noteq> ?t" by auto
      ultimately show "fs w' p = Some Dir"
        using res ws(3) w1 by (simp add: create_dir_def)
    qed
    have fin: "\<forall>b. r = Inr b \<longrightarrow> \<not> under ?t (final_file_path output_file ?t)
        \<longrightarrow> fs w' (final_file_path output_file ?t) = Some (File b)"
      using res ws(4) by simp
    have neq: "\<forall>b. r = Inr b \<longrightarrow> final_file_path output_file ?t \<noteq> ?t"
    proof (intro allI impI)
      fix b assume "r = Inr b"
      with res ws(4) have "fs w2 (final_file_path output_file ?t) = Some (File b)" by simp
      moreover from d1 ws(3) have "fs w2 ?t = Some Dir" by simp
      ultimately show "final_file_path output_file ?t \<noteq> ?t" by auto
    qed
    from tin fresh tr ws(2) gone dirs neq fin show ?thesis by blast
  qed
qed

subsection \<open>Runs of \<open>convert\<close>\<close>

lemma convert_not_Path:
  assumes "\<not> isinstance_Path output_file"
  shows "\<exists>msg. convert L image_arg output_file class_ids is_smooth keep w = (Inl (ValueError msg), w)"
  using assms by (cases output_file) (simp_all add: convert_def)

lemma convert_run:
  assumes "convert L image_arg output_file class_ids is_smooth keep w = (r, w')"
  shows "(w' = w \<and> (\<exists>e. r = Inl e))
       \<or> (\<exists>p r1 w1. output_file = FilePath p \<and> mkdir_exist_ok (parent p) w = (r1, w1)
             \<and> ((w' = w1 \<and> (\<exists>e. r = Inl e))
                \<or> (r1 = Inr () \<and> (\<exists>verts faces. export_stage L verts faces output_file is_smooth w1 = (r, w')))))"
proof (cases "\<not> py_truthy image_arg \<or> \<not> isinstance_Image image_arg")
  case True
  with assms show ?thesis by (auto simp: convert_def)
next
  case valid: False
  show ?thesis
  proof (cases output_file)
    case (FilePath p)
    obtain r1 w1 where m: "mkdir_exist_ok (parent p) w = (r1, w1)"
      by (cases "mkdir_exist_ok (parent p) w") auto
    from assms valid FilePath m have
      "io_then (r1, w1) (\<lambda>_ w1.
         io_then (and_then (SpatialImage L image_arg) (\<lambda>s_image. mesh_stage L s_image class_ids keep), w1)
           (\<lambda>(verts, faces) w2. export_stage L verts faces output_file is_smooth w2)) = (r, w')"
      by (simp add: convert_def path_truthy_def)
    then show ?thesis
    proof (cases rule: io_then_cases)
      case (raised e)
      with FilePath m show ?thesis by auto
    next
      case (continued u w1')
      then have u: "r1 = Inr ()" "w1' = w1" by auto
      from continued(2) show ?thesis
      proof (cases rule: io_then_cases)
        case (raised e)
        with FilePath m u show ?thesis by auto
      next
        case (continued vf w2)
        then have "w2 = w1" using u by simp
        with continued(2) have "export_stage L (fst vf) (snd vf) output_file is_smooth w1 = (r, w')"
          by (simp add: case_prod_beta)
        with FilePath m u show ?thesis by blast
      qed
    qed
  qed (use assms valid in \<open>auto simp: convert_def\<close>)
qed

lemma mkdir_exist_ok_trace:
  assumes "mkdir_exist_ok p w = (r, w')"
  shows "trace w' = trace w \<or> trace w' = trace w @ [Mkdir p]"
  using mkdir_exist_ok_cases [OF assms] by (auto simp: create_dir_def)

text \<open>
  C1. In every run of \<open>convert\<close>, whatever it returns or raises: a temporary directory
  that the run created with \<open>mkdtemp\<close> has been removed by \<open>rmtree\<close> when the run
  ends, and nothing is left at or below its path.
\<close>

theorem temp_folder_removed:
  assumes "convert L image_arg output_file class_ids is_smooth keep w = (r, w')"
    and "Mkdtemp t \<in> set (trace w')"
    and "Mkdtemp t \<notin> set (trace w)"
  shows "(\<forall>p. under t p \<longrightarrow> fs w' p = None) \<and> last (trace w') = Rmtree t"
proof -
  from assms(2,3) have "w' \<noteq> w" by auto
  with convert_run [OF assms(1)] obtain p r1 w1 where
    run: "output_file = FilePath p" "mkdir_exist_ok (parent p) w = (r1, w1)"
      "(w' = w1 \<and> (\<exists>e. r = Inl e))
        \<or> (r1 = Inr () \<and> (\<exists>verts faces. export_stage L verts faces output_file is_smooth w1 = (r, w')))"
    by blast
  from mkdir_exist_ok_trace [OF run(2)] assms(3) have not1: "Mkdtemp t \<notin> set (trace w1)"
    by auto
  with assms(2) have "w' \<noteq> w1" by auto
  with run(3) obtain verts faces where
    "export_stage L verts faces output_file is_smooth w1 = (r, w')"
    by blast
  from export_stage_effect [OF this] \<open>w' \<noteq> w1\<close> obtain t' ws where
    t': "trace w' = trace w1 @ Mkdtemp t' # map WriteFile ws @ [Rmtree t']"
      "\<forall>p. under t' p \<longrightarrow> fs w' p = None"
    by blast
  from t'(1) not1 assms(2) have "t = t'" by auto
  with t' show ?thesis by simp
qed

subsection \<open>A sample run of \<open>convert\<close>\<close>

lemma demo_volume_stage:
  "volume_stage demo_libs
     \<lparr>image_array = \<lparr>shape = [2, 2, 2], flat = [0, 3, 3, 0, 7, 0, 0, 0]\<rparr>,
      itk_image = 0, spacing = Some 0, original_affine = Some 5, affine = Some 5\<rparr> ClassNone True =
   Inr (VU8 \<lparr>shape = [2, 2, 2], flat = [0, 1, 1, 0, 0, 0, 0, 0]\<rparr>,
        VU8 \<lparr>shape = [2, 2, 2], flat = [0, 1, 1, 0, 0, 0, 0, 0]\<rparr>)"
  by (simp add: volume_stage_def demo_prepare_volume)
     (simp add: class_mask_def iadd_def zeros_def resized_volume_def target_shape_def
        resize_volume_def demo_libs_def demo_arrays_def)

lemma demo_mesh_stage:
  "mesh_stage demo_libs
     \<lparr>image_array = \<lparr>shape = [2, 2, 2], flat = [0, 3, 3, 0, 7, 0, 0, 0]\<rparr>,
      itk_image = 0, spacing = Some 0, original_affine = Some 5, affine = Some 5\<rparr> ClassNone True =
   Inr (10, 20)"
  by (simp add: mesh_stage_def demo_volume_stage) (simp add: demo_libs_def demo_meshes_def)

lemmas fs_eval =
  mkdir_exist_ok_def is_dir_def path_exists_def parent_def create_dir_def missing_dir_error_def
  os_path_join_def joinpath_def path_of_str_def write_file_def put_file_def read_file_def
  rmtree_def under_def add_suffix_def splitext_root_def splitext_root_name_def

lemma demo_export_stage:
  "export_stage demo_libs 10 20 (FilePath mesh_file) True demo_world =
     (Inr [115, 116, 108],
      \<lparr>fs = (\<lambda>p. if under \<lparr>absolute = True, parts = [''tmp'', ''tmpa'']\<rparr> p then None
                 else ((fs demo_world)
                   (\<lparr>absolute = True, parts = [''tmp'', ''tmpa'']\<rparr> \<mapsto> Dir,
                    \<lparr>absolute = True, parts = [''tmp'', ''tmpa'', ''temp.stl'']\<rparr> \<mapsto> File [1, 2, 3],
                    mesh_file \<mapsto> File [115, 116, 108])) p),
       trace = [Mkdtemp \<lparr>absolute = True, parts = [''tmp'', ''tmpa'']\<rparr>,
                WriteFile \<lparr>absolute = True, parts = [''tmp'', ''tmpa'', ''temp.stl'']\<rparr>,
                WriteFile mesh_file,
                Rmtree \<lparr>absolute = True, parts = [''tmp'', ''tmpa'']\<rparr>]\<rparr>)"
  by (simp add: export_stage_def try_body_def write_stl_def Let_def fs_eval
      demo_libs_def demo_os_def demo_meshes_def demo_world_def out_dir_def mesh_file_def
      cong: if_cong)

lemma demo_convert_eval:
  "demo_convert_run = export_stage demo_libs 10 20 (FilePath mesh_file) True demo_world"
  by (simp add: demo_convert_run_def convert_def path_truthy_def demo_spatial_image demo_mesh_stage)
     (simp add: fs_eval mesh_file_def demo_world_def out_dir_def)


subsection \<open>What \<open>convert\<close> writes\<close>




subsection \<open>Well-formed file systems\<close>

lemma wf_create_dir:
  assumes "wf_fs (fs w)" "is_dir (fs w) (parent p)"
  shows "wf_fs (fs (create_dir ev p w))"
  using assms by (auto simp: wf_fs_def create_dir_def is_dir_def)

lemma wf_mkdir_exist_ok:
  assumes "mkdir_exist_ok p w = (r, w')" "wf_fs (fs w)"
  shows "wf_fs (fs w')"
  using mkdir_exist_ok_cases [OF assms(1)] assms(2) wf_create_dir by auto

lemma under_proper_parent:
  assumes "under t p" "p \<noteq> t"
  shows "under t (parent p)"
proof (cases "parts p" rule: rev_cases)
  case Nil
  with assms show ?thesis by (cases p; cases t) (auto simp: under_def)
next
  case (snoc xs x)
  from assms have "parts t \<noteq> parts p" by (cases p; cases t) (auto simp: under_def)
  with assms(1) snoc have "prefix (parts t) xs" by (auto simp: under_def)
  with assms(1) snoc show ?thesis by (simp add: under_def parent_def)
qed

lemma wf_ancestors:
  assumes "wf_fs f"
  shows "f p \<noteq> None \<Longrightarrow> under q p \<Longrightarrow> parts q \<noteq> [] \<Longrightarrow> f q \<noteq> None"
proof (induction "length (parts p)" arbitrary: p)
  case 0
  then show ?case by (simp add: under_def)
next
  case (Suc n)
  show ?case
  proof (cases "p = q")
    case True
    with Suc.prems show ?thesis by simp
  next
    case False
    with Suc.prems(2) have u: "under q (parent p)" by (rule under_proper_parent)
    from u Suc.prems(3) have ne: "parts (parent p) \<noteq> []" by (auto simp: under_def)
    from assms Suc.prems(1) have "is_dir f (parent p)" by (simp add: wf_fs_def)
    with ne have ex: "f (parent p) \<noteq> None" by (simp add: is_dir_def)
    from Suc.hyps(2) have "n = length (parts (parent p))" by (simp add: parent_def)
    from Suc.hyps(1) [OF this ex u Suc.prems(3)] show ?thesis .
  qed
qed

subsection \<open>A successful export leaves the file\<close>

lemma export_stage_success:
  assumes "export_stage L verts faces (FilePath p) is_smooth w = (Inr b, w')"
    and "wf_fs (fs w)" and "is_dir (fs w) (parent p)"
  shows "fs w' p = Some (File b)"
proof -
  from export_stage_effect [OF assms(1)] obtain t where
    t: "\<not> path_exists (fs w) t" "p \<noteq> t" "\<not> under t p \<longrightarrow> fs w' p = Some (File b)"
    by auto
  have "\<not> under t p"
  proof
    assume "under t p"
    then have u: "under t (parent p)" using t(2) by (rule under_proper_parent)
    from t(1) have tne: "parts t \<noteq> []" and none: "fs w t = None"
      by (auto simp: path_exists_def)
    from u tne have "parts (parent p) \<noteq> []" by (auto simp: under_def)
    with assms(3) have "fs w (parent p) \<noteq> None" by (simp add: is_dir_def)
    from wf_ancestors [OF assms(2) this u tne] none show False by simp
  qed
  with t(3) show ?thesis by simp
qed

lemma convert_success:
  assumes "convert L image_arg (FilePath p) class_ids is_smooth keep w = (Inr b, w')"
    and "wf_fs (fs w)"
  shows "fs w' p = Some (File b)"
proof -
  from convert_run [OF assms(1)] obtain w1 verts faces where
    run: "mkdir_exist_ok (parent p) w = (Inr (), w1)"
      "export_stage L verts faces (FilePath p) is_smooth w1 = (Inr b, w')"
    by auto
  from wf_mkdir_exist_ok [OF run(1) assms(2)] mkdir_exist_ok_is_dir [OF run(1)]
  show ?thesis by (rule export_stage_success [OF run(2)])
qed

lemma STLConversionOperator_convert_success:
  assumes "STLConversionOperator_convert L self image_arg (FilePath p) w = (Inr b, w')"
    and "wf_fs (fs w)"
  shows "fs w' p = Some (File b)"
proof -
  from assms(1) have "io_then (mkdir_exist_ok (parent p) w) (\<lambda>_ w1.
      convert L image_arg (FilePath p) (self_class_id self) (self_is_smooth self)
        (self_keep_largest_connected_component self) w1) = (Inr b, w')"
    by (simp add: STLConversionOperator_convert_def)
  then show ?thesis
  proof (cases rule: io_then_cases)
    case (continued u w1)
    from wf_mkdir_exist_ok [OF continued(1) assms(2)] show ?thesis
      by (rule convert_success [OF continued(2)])
  qed simp
qed

lemma STLConversionOperator_convert_not_Path:
  assumes "\<not> isinstance_Path output_file" "\<not> isinstance_Path (self_output_file self)"
  shows "\<exists>e. STLConversionOperator_convert L self image_arg output_file w = (Inl e, w)"
proof -
  from convert_not_Path [OF assms(2)] obtain msg where
    "convert L image_arg (self_output_file self) (self_class_id self) (self_is_smooth self)
        (self_keep_largest_connected_component self) w = (Inl (ValueError msg), w)"
    by blast
  with assms(1) show ?thesis
    by (cases output_file) (simp_all add: STLConversionOperator_convert_def)
qed

lemma nonempty_cases:
  "nonempty x = Inr True \<longleftrightarrow> (\<exists>s. x = FileStr s \<and> s \<noteq> [])"
  "nonempty x = Inr False \<Longrightarrow> \<not> isinstance_Path x"
  by (cases x; simp add: nonempty_def)+


subsection \<open>A sample run of \<open>compute\<close>\<close>

lemma wf_demo_world: "wf_fs (fs demo_world)"
  by (auto simp: wf_fs_def demo_world_def out_dir_def is_dir_def parent_def split: if_splits)

lemma demo_resolved_file: "joinpath out_dir (path_of_str ''mesh.stl'') = mesh_file"
  by (simp add: joinpath_def path_of_str_def out_dir_def mesh_file_def)

lemma demo_mkdir: "mkdir_exist_ok (parent mesh_file) demo_world = (Inr (), demo_world)"
  by (simp add: mkdir_exist_ok_def is_dir_def parent_def mesh_file_def demo_world_def out_dir_def)

lemma demo_convert_result: "fst demo_convert_run = Inr [115, 116, 108]"
  by (simp add: demo_convert_eval demo_export_stage)

lemma demo_file_written: "fs (snd demo_convert_run) mesh_file = Some (File [115, 116, 108])"
  by (simp add: demo_convert_eval demo_export_stage) (simp add: under_def mesh_file_def)

lemma demo_output_file: "self_output_file demo_operator = FileStr ''mesh.stl''"
  by (simp add: demo_operator_def)

lemma demo_operator_convert:
  "STLConversionOperator_convert demo_libs (demo_operator\<lparr>self_output_file := FilePath mesh_file\<rparr>)
      (PyImage demo_image) (FilePath mesh_file) demo_world =
   (Inr [115, 116, 108], snd demo_convert_run)"
proof -
  have "STLConversionOperator_convert demo_libs (demo_operator\<lparr>self_output_file := FilePath mesh_file\<rparr>)
      (PyImage demo_image) (FilePath mesh_file) demo_world = demo_convert_run"
    by (simp add: STLConversionOperator_convert_def demo_mkdir demo_convert_run_def demo_operator_def)
  also have "\<dots> = (fst demo_convert_run, snd demo_convert_run)" by simp
  finally show ?thesis by (simp add: demo_convert_result)
qed

lemma demo_compute_eval:
  "demo_compute_run =
     (Inr None, demo_operator\<lparr>self_output_file := FilePath mesh_file\<rparr>, snd demo_convert_run)"
  by (simp add: demo_compute_run_def STLConversionOperator_compute_def nonempty_def demo_output_file
      demo_resolved_file demo_mkdir demo_operator_convert)

lemma demo_compute_in_memory_eval:
  "demo_compute_run_in_memory =
     (Inr (Some [115, 116, 108]), demo_operator\<lparr>self_output_file := FilePath mesh_file\<rparr>,
      snd demo_convert_run)"
  by (simp add: demo_compute_run_in_memory_def STLConversionOperator_compute_def nonempty_def
      demo_output_file demo_resolved_file demo_mkdir demo_operator_convert)


subsection \<open>\<open>compute\<close> on the same operator object\<close>

lemma compute_sets_output_file:
  assumes "STLConversionOperator_compute L self op_input op_output_config app_output w = (r, self', w')"
    and "py_truthy op_input" and "self_output_file self = FileStr s" and "s \<noteq> []"
  shows "self_output_file self' =
    FilePath (joinpath (case op_output_config of DataPathValue d \<Rightarrow> d | InMemoryValue \<Rightarrow> app_output)
       (path_of_str s))"
  using assms
  by (auto simp: STLConversionOperator_compute_def nonempty_def Let_def
      split: prod.splits sum.splits out_config.splits)

lemma compute_with_Path_fails:
  assumes "py_truthy op_input" and "self_output_file self = FilePath p"
  shows "STLConversionOperator_compute L self op_input op_output_config app_output w = (Inl TypeError, self, w)"
  using assms by (simp add: STLConversionOperator_compute_def nonempty_def)

text \<open>
  C7. The sample operator is constructed with \<open>output_file = "mesh.stl"\<close>. Its first
  \<open>compute\<close> returns normally and leaves \<open>self._output_file\<close> as the path
  \<^verbatim>\<open>/out/mesh.stl\<close>; a second \<open>compute\<close> with the same contexts raises
  \<open>TypeError\<close>, from \<^verbatim>\<open>len(self._output_file)\<close>, and resolves no output path.
\<close>

theorem second_compute_raises_TypeError:
  "self_output_file demo_operator = FileStr ''mesh.stl''
   \<and> fst demo_compute_run = Inr None
   \<and> self_output_file (fst (snd demo_compute_run)) = FilePath mesh_file
   \<and> fst (STLConversionOperator_compute demo_libs (fst (snd demo_compute_run)) (PyImage demo_image)
            (DataPathValue out_dir) out_dir (snd (snd demo_compute_run))) = Inl TypeError"
  by (simp add: demo_compute_eval demo_output_file compute_with_Path_fails)

subsection \<open>What the operators write\<close>





lemma under_joinpath:
  assumes "relative_below q"
  shows "under d (joinpath d q)" "under d (parent (joinpath d q))"
proof -
  from assms show "under d (joinpath d q)"
    by (simp add: relative_below_def joinpath_def under_def)
  from assms have "butlast (parts d @ parts q) = parts d @ butlast (parts q)"
    by (simp add: relative_below_def butlast_append)
  with assms show "under d (parent (joinpath d q))"
    by (simp add: relative_below_def joinpath_def under_def parent_def)
qed





subsection \<open>A sample run of \<open>convert\<close> in which the export raises\<close>

lemma failing_mesh_stage:
  "and_then (SpatialImage failing_libs (PyImage demo_image))
     (\<lambda>s_image. mesh_stage failing_libs s_image ClassNone True) = Inr (10, 20)"
proof -
  have s: "SpatialImage failing_libs (PyImage demo_image) =
     Inr \<lparr>image_array = \<lparr>shape = [2, 2, 2], flat = [0, 3, 3, 0, 7, 0, 0, 0]\<rparr>,
          itk_image = 0, spacing = Some 0, original_affine = Some 5, affine = Some 5\<rparr>"
    by (simp add: SpatialImage_def read_from_in_mem_image_def load_data_def getitem_def
        demo_image_def demo_metadata_def failing_libs_def demo_arrays_def)
  have p: "prepare_volume failing_libs
     \<lparr>image_array = \<lparr>shape = [2, 2, 2], flat = [0, 3, 3, 0, 7, 0, 0, 0]\<rparr>,
      itk_image = 0, spacing = Some 0, original_affine = Some 5, affine = Some 5\<rparr> True =
     Inr (VU8 \<lparr>shape = [2, 2, 2], flat = [0, 1, 1, 0, 0, 0, 0, 0]\<rparr>, 0)"
    by (simp add: prepare_volume_def failing_libs_def demo_arrays_def demo_largest_cc)
  have v: "volume_stage failing_libs
     \<lparr>image_array = \<lparr>shape = [2, 2, 2], flat = [0, 3, 3, 0, 7, 0, 0, 0]\<rparr>,
      itk_image = 0, spacing = Some 0, original_affine = Some 5, affine = Some 5\<rparr> ClassNone True =
     Inr (VU8 \<lparr>shape = [2, 2, 2], flat = [0, 1, 1, 0, 0, 0, 0, 0]\<rparr>,
          VU8 \<lparr>shape = [2, 2, 2], flat = [0, 1, 1, 0, 0, 0, 0, 0]\<rparr>)"
    by (simp add: volume_stage_def p)
       (simp add: class_mask_def iadd_def zeros_def resized_volume_def target_shape_def
          resize_volume_def failing_libs_def demo_arrays_def)
  have "mesh_stage failing_libs
     \<lparr>image_array = \<lparr>shape = [2, 2, 2], flat = [0, 3, 3, 0, 7, 0, 0, 0]\<rparr>,
      itk_image = 0, spacing = Some 0, original_affine = Some 5, affine = Some 5\<rparr> ClassNone True =
     Inr (10, 20)"
    by (simp add: mesh_stage_def v) (simp add: failing_libs_def demo_meshes_def)
  with s show ?thesis by simp
qed

lemma failing_export_stage:
  "export_stage failing_libs 10 20 (FilePath mesh_file) True demo_world =
     (Inl (LibraryError 7),
      \<lparr>fs = (\<lambda>p. if under \<lparr>absolute = True, parts = [''tmp'', ''tmpa'']\<rparr> p then None
                 else ((fs demo_world)
                   (\<lparr>absolute = True, parts = [''tmp'', ''tmpa'']\<rparr> \<mapsto> Dir,
                    \<lparr>absolute = True, parts = [''tmp'', ''tmpa'', ''temp.stl'']\<rparr> \<mapsto> File [1, 2, 3],
                    mesh_file \<mapsto> File [115])) p),
       trace = [Mkdtemp \<lparr>absolute = True, parts = [''tmp'', ''tmpa'']\<rparr>,
                WriteFile \<lparr>absolute = True, parts = [''tmp'', ''tmpa'', ''temp.stl'']\<rparr>,
                WriteFile mesh_file,
                Rmtree \<lparr>absolute = True, parts = [''tmp'', ''tmpa'']\<rparr>]\<rparr>)"
  by (simp add: export_stage_def try_body_def write_stl_def Let_def fs_eval
      failing_libs_def demo_os_def demo_meshes_def demo_world_def out_dir_def mesh_file_def
      cong: if_cong)

lemma failing_convert_eval:
  "failing_convert_run = export_stage failing_libs 10 20 (FilePath mesh_file) True demo_world"
  by (simp add: failing_convert_run_def convert_def path_truthy_def failing_mesh_stage demo_mkdir)

text \<open>
  Two sample runs create and remove \<^verbatim>\<open>/tmp/tmpa\<close>: one returns the bytes of the
  mesh, in the other the export raises.
\<close>

theorem temp_folder_removed_witness:
  "Mkdtemp \<lparr>absolute = True, parts = [''tmp'', ''tmpa'']\<rparr> \<in> set (trace (snd demo_convert_run))
   \<and> Mkdtemp \<lparr>absolute = True, parts = [''tmp'', ''tmpa'']\<rparr> \<notin> set (trace demo_world)
   \<and> fst demo_convert_run = Inr [115, 116, 108]
   \<and> fs (snd demo_convert_run) \<lparr>absolute = True, parts = [''tmp'', ''tmpa'']\<rparr> = None
   \<and> fs (snd demo_convert_run) \<lparr>absolute = True, parts = [''tmp'', ''tmpa'', ''temp.stl'']\<rparr> = None
   \<and> last (trace (snd demo_convert_run)) = Rmtree \<lparr>absolute = True, parts = [''tmp'', ''tmpa'']\<rparr>
   \<and> Mkdtemp \<lparr>absolute = True, parts = [''tmp'', ''tmpa'']\<rparr> \<in> set (trace (snd failing_convert_run))
   \<and> fst failing_convert_run = Inl (LibraryError 7)
   \<and> fs (snd failing_convert_run) \<lparr>absolute = True, parts = [''tmp'', ''tmpa'']\<rparr> = None
   \<and> fs (snd failing_convert_run) \<lparr>absolute = True, parts = [''tmp'', ''tmpa'', ''temp.stl'']\<rparr> = None
   \<and> last (trace (snd failing_convert_run)) = Rmtree \<lparr>absolute = True, parts = [''tmp'', ''tmpa'']\<rparr>"
proof -
  let ?t = "\<lparr>absolute = True, parts = [''tmp'', ''tmpa'']\<rparr>"
  have run: "convert demo_libs (PyImage demo_image) (FilePath mesh_file) ClassNone True True demo_world =
      (fst demo_convert_run, snd demo_convert_run)"
    by (simp add: demo_convert_run_def)
  have run': "convert failing_libs (PyImage demo_image) (FilePath mesh_file) ClassNone True True demo_world =
      (fst failing_convert_run, snd failing_convert_run)"
    by (simp add: failing_convert_run_def)
  have created: "Mkdtemp ?t \<in> set (trace (snd demo_convert_run))"
    by (simp add: demo_convert_eval demo_export_stage)
  have created': "Mkdtemp ?t \<in> set (trace (snd failing_convert_run))"
    by (simp add: failing_convert_eval failing_export_stage)
  have before: "Mkdtemp ?t \<notin> set (trace demo_world)"
    by (simp add: demo_world_def)
  have result: "fst demo_convert_run = Inr [115, 116, 108]"
    by (simp add: demo_convert_eval demo_export_stage)
  have result': "fst failing_convert_run = Inl (LibraryError 7)"
    by (simp add: failing_convert_eval failing_export_stage)
  have u1: "under ?t ?t" by simp
  have u2: "under ?t \<lparr>absolute = True, parts = [''tmp'', ''tmpa'', ''temp.stl'']\<rparr>"
    by (simp add: under_def)
  from temp_folder_removed [OF run created before] temp_folder_removed [OF run' created' before]
    created created' before result result' u1 u2
  show ?thesis by blast
qed

subsection \<open>The output of \<open>compute\<close>\<close>

lemma compute_success:
  assumes "wf_fs (fs w)"
    and "STLConversionOperator_compute L self op_input op_output_config app_output w = (Inr out, self', w')"
  shows "\<exists>s b. self_output_file self = FileStr s \<and> s \<noteq> []
           \<and> (case op_output_config of
                DataPathValue d \<Rightarrow>
                  out = None \<and> fs w' (joinpath d (path_of_str s)) = Some (File b)
              | InMemoryValue \<Rightarrow>
                  out = Some b \<and> fs w' (joinpath app_output (path_of_str s)) = Some (File b))"
proof -
  from assms(2) have truthy: "py_truthy op_input"
    by (auto simp: STLConversionOperator_compute_def split: if_splits)
  show ?thesis
  proof (cases "nonempty (self_output_file self)")
    case (Inl e)
    with assms(2) truthy show ?thesis by (simp add: STLConversionOperator_compute_def)
  next
    case (Inr given)
    show ?thesis
    proof (cases given)
      case False
      with Inr have "\<not> isinstance_Path (self_output_file self)" by (simp add: nonempty_cases(2))
      from STLConversionOperator_convert_not_Path [OF this this] obtain e where
        "STLConversionOperator_convert L self op_input (self_output_file self) w = (Inl e, w)"
        by blast
      with assms(2) truthy Inr False show ?thesis by (simp add: STLConversionOperator_compute_def)
    next
      case True
      with Inr obtain s where s: "self_output_file self = FileStr s" "s \<noteq> []"
        by (auto simp: nonempty_cases(1))
      let ?folder = "case op_output_config of DataPathValue d \<Rightarrow> d | InMemoryValue \<Rightarrow> app_output"
      let ?f = "joinpath ?folder (path_of_str s)"
      let ?self = "self\<lparr>self_output_file := FilePath ?f\<rparr>"
      obtain r1 w1 where m: "mkdir_exist_ok (parent ?f) w = (r1, w1)"
        by (cases "mkdir_exist_ok (parent ?f) w") auto
      obtain r2 w2 where c: "STLConversionOperator_convert L ?self op_input (FilePath ?f) w1 = (r2, w2)"
        by (cases "STLConversionOperator_convert L ?self op_input (FilePath ?f) w1") auto
      from assms(2) truthy Inr True s m c obtain b where
        b: "r1 = Inr ()" "r2 = Inr b" "w' = w2"
          "out = (case op_output_config of DataPathValue d \<Rightarrow> None | InMemoryValue \<Rightarrow> Some b)"
        by (cases r1; cases r2; cases op_output_config)
           (auto simp: STLConversionOperator_compute_def Let_def)
      from wf_mkdir_exist_ok [OF m assms(1)] c b have "fs w' ?f = Some (File b)"
        by (auto intro: STLConversionOperator_convert_success)
      with s b(4) show ?thesis
        by (cases op_output_config) auto
    qed
  qed
qed

subsection \<open>A sample run with an absolute \<open>output_file\<close>\<close>

lemma wf_elsewhere_world: "wf_fs (fs elsewhere_world)"
  by (auto simp: wf_fs_def elsewhere_world_def is_dir_def parent_def split: if_splits)

lemma elsewhere_resolved_file: "joinpath out_dir (path_of_str ''/elsewhere/mesh.stl'') = elsewhere_file"
  by (simp add: joinpath_def path_of_str_def elsewhere_file_def)

lemma elsewhere_mkdir:
  "mkdir_exist_ok (parent elsewhere_file) elsewhere_world = (Inr (), elsewhere_world)"
  by (simp add: mkdir_exist_ok_def is_dir_def parent_def elsewhere_file_def elsewhere_world_def)

lemma elsewhere_export_stage:
  "export_stage demo_libs 10 20 (FilePath elsewhere_file) True elsewhere_world =
     (Inr [115, 116, 108],
      \<lparr>fs = (\<lambda>p. if under \<lparr>absolute = True, parts = [''tmp'', ''tmpa'']\<rparr> p then None
                 else ((fs elsewhere_world)
                   (\<lparr>absolute = True, parts = [''tmp'', ''tmpa'']\<rparr> \<mapsto> Dir,
                    \<lparr>absolute = True, parts = [''tmp'', ''tmpa'', ''temp.stl'']\<rparr> \<mapsto> File [1, 2, 3],
                    elsewhere_file \<mapsto> File [115, 116, 108])) p),
       trace = [Mkdtemp \<lparr>absolute = True, parts = [''tmp'', ''tmpa'']\<rparr>,
                WriteFile \<lparr>absolute = True, parts = [''tmp'', ''tmpa'', ''temp.stl'']\<rparr>,
                WriteFile elsewhere_file,
                Rmtree \<lparr>absolute = True, parts = [''tmp'', ''tmpa'']\<rparr>]\<rparr>)"
  by (simp add: export_stage_def try_body_def write_stl_def Let_def fs_eval
      demo_libs_def demo_os_def demo_meshes_def elsewhere_world_def elsewhere_file_def
      cong: if_cong)

lemma elsewhere_convert:
  "convert demo_libs (PyImage demo_image) (FilePath elsewhere_file) ClassNone True True elsewhere_world =
     export_stage demo_libs 10 20 (FilePath elsewhere_file) True elsewhere_world"
  by (simp add: convert_def path_truthy_def demo_spatial_image demo_mesh_stage elsewhere_mkdir)

lemma elsewhere_run_eval:
  "elsewhere_run =
     (Inr None, elsewhere_operator\<lparr>self_output_file := FilePath elsewhere_file\<rparr>,
      snd (export_stage demo_libs 10 20 (FilePath elsewhere_file) True elsewhere_world))"
proof -
  have f: "self_output_file elsewhere_operator = FileStr ''/elsewhere/mesh.stl''"
    by (simp add: elsewhere_operator_def)
  have c: "STLConversionOperator_convert demo_libs
      (elsewhere_operator\<lparr>self_output_file := FilePath elsewhere_file\<rparr>)
      (PyImage demo_image) (FilePath elsewhere_file) elsewhere_world =
      export_stage demo_libs 10 20 (FilePath elsewhere_file) True elsewhere_world"
    by (simp add: STLConversionOperator_convert_def elsewhere_mkdir elsewhere_convert
        elsewhere_operator_def)
  show ?thesis
    by (simp add: elsewhere_run_def STLConversionOperator_compute_def nonempty_def f
        elsewhere_resolved_file elsewhere_mkdir c)
       (simp add: elsewhere_export_stage)
qed

text \<open>
  The sample operator has the absolute \<open>output_file\<close> \<^verbatim>\<open>/elsewhere/mesh.stl\<close> and a
  \<open>DataPath\<close> output at \<^verbatim>\<open>/out\<close>. Its \<open>compute\<close> returns normally without
  calling \<open>op_output.set\<close>; the mesh is written to \<^verbatim>\<open>/elsewhere/mesh.stl\<close>, and
  nothing is created at or below \<^verbatim>\<open>/out\<close>.
\<close>

theorem compute_leaves_output_path_empty:
  "wf_fs (fs elsewhere_world)
   \<and> self_output_file elsewhere_operator = FileStr ''/elsewhere/mesh.stl''
   \<and> fst elsewhere_run = Inr None
   \<and> trace (snd (snd elsewhere_run)) =
       [Mkdtemp \<lparr>absolute = True, parts = [''tmp'', ''tmpa'']\<rparr>, WriteFile tmp_stl,
        WriteFile elsewhere_file, Rmtree \<lparr>absolute = True, parts = [''tmp'', ''tmpa'']\<rparr>]
   \<and> \<not> under out_dir \<lparr>absolute = True, parts = [''tmp'', ''tmpa'']\<rparr>
   \<and> \<not> under out_dir tmp_stl
   \<and> \<not> under out_dir elsewhere_file
   \<and> fs (snd (snd elsewhere_run)) out_dir = None
   \<and> fs (snd (snd elsewhere_run)) elsewhere_file = Some (File [115, 116, 108])"
proof -
  have "fs (snd (snd elsewhere_run)) out_dir = None"
    "fs (snd (snd elsewhere_run)) elsewhere_file = Some (File [115, 116, 108])"
    by (simp_all add: elsewhere_run_eval elsewhere_export_stage)
       (simp_all add: under_def out_dir_def elsewhere_file_def elsewhere_world_def)
  moreover have "trace (snd (snd elsewhere_run)) =
       [Mkdtemp \<lparr>absolute = True, parts = [''tmp'', ''tmpa'']\<rparr>, WriteFile tmp_stl,
        WriteFile elsewhere_file, Rmtree \<lparr>absolute = True, parts = [''tmp'', ''tmpa'']\<rparr>]"
    by (simp add: elsewhere_run_eval elsewhere_export_stage tmp_stl_def)
  moreover have "\<not> under out_dir \<lparr>absolute = True, parts = [''tmp'', ''tmpa'']\<rparr>"
    "\<not> under out_dir tmp_stl" "\<not> under out_dir elsewhere_file"
    by (simp_all add: under_def out_dir_def tmp_stl_def elsewhere_file_def)
  ultimately show ?thesis
    using wf_elsewhere_world by (simp add: elsewhere_run_eval elsewhere_operator_def)
qed

text \<open>
  C3, as amended. Start \<open>compute\<close> in a well-formed file system and let it return
  normally. Then the operator was configured with a non-empty \<open>output_file\<close>, and the
  STL file exists at \<open>output_folder / output_file\<close>. For an output that is not a
  \<open>DataPath\<close>, \<open>op_output.set\<close> has been called with the bytes of that file. For a
  \<open>DataPath\<close> output, \<open>op_output.set\<close> is not called, and the file lies below the path
  of \<open>op_output\<close> when \<open>output_file\<close> is a relative path without \<^verbatim>\<open>..\<close>.
\<close>

theorem output_is_set_for_relative_file:
  assumes "wf_fs (fs w)"
    and "STLConversionOperator_compute L self op_input op_output_config app_output w = (Inr out, self', w')"
  shows "\<exists>s b. self_output_file self = FileStr s \<and> s \<noteq> []
           \<and> (case op_output_config of
                DataPathValue d \<Rightarrow>
                  out = None \<and> fs w' (joinpath d (path_of_str s)) = Some (File b)
                  \<and> (relative_below (path_of_str s) \<longrightarrow> under d (joinpath d (path_of_str s)))
              | InMemoryValue \<Rightarrow>
                  out = Some b \<and> fs w' (joinpath app_output (path_of_str s)) = Some (File b))"
proof -
  from compute_success [OF assms] obtain s b where
    sb: "self_output_file self = FileStr s" "s \<noteq> []"
      "case op_output_config of
         DataPathValue d \<Rightarrow> out = None \<and> fs w' (joinpath d (path_of_str s)) = Some (File b)
       | InMemoryValue \<Rightarrow> out = Some b \<and> fs w' (joinpath app_output (path_of_str s)) = Some (File b)"
    by blast
  show ?thesis
  proof (cases op_output_config)
    case (DataPathValue d)
    with sb under_joinpath(1) [of "path_of_str s" d] show ?thesis by auto
  next
    case InMemoryValue
    with sb show ?thesis by auto
  qed
qed

theorem output_is_set_for_relative_file_witness:
  "wf_fs (fs demo_world)
   \<and> self_output_file demo_operator = FileStr ''mesh.stl''
   \<and> relative_below (path_of_str ''mesh.stl'')
   \<and> joinpath out_dir (path_of_str ''mesh.stl'') = mesh_file
   \<and> fst demo_compute_run = Inr None
   \<and> fs (snd (snd demo_compute_run)) mesh_file = Some (File [115, 116, 108])
   \<and> under out_dir mesh_file
   \<and> fst demo_compute_run_in_memory = Inr (Some [115, 116, 108])"
proof -
  have run: "STLConversionOperator_compute demo_libs demo_operator (PyImage demo_image)
      (DataPathValue out_dir) out_dir demo_world =
      (Inr None, demo_operator\<lparr>self_output_file := FilePath mesh_file\<rparr>, snd (snd demo_compute_run))"
    using demo_compute_eval by (simp add: demo_compute_run_def)
  have rel: "relative_below (path_of_str ''mesh.stl'')"
    by (simp add: relative_below_def path_of_str_def)
  from output_is_set_for_relative_file [OF wf_demo_world run] rel
  have "(\<exists>b. fs (snd (snd demo_compute_run)) mesh_file = Some (File b)) \<and> under out_dir mesh_file"
    by (auto simp: demo_output_file demo_resolved_file)
  with wf_demo_world rel show ?thesis
    by (simp add: demo_compute_eval demo_compute_in_memory_eval demo_file_written demo_output_file
        demo_resolved_file)
qed

end
